theory Spec2Isabelle
  imports Complex_Main
begin

section \<open>Exceptions\<close>

text \<open>
  The exceptions the analysis path can raise.  The first group are the classes of
  \<^verbatim>\<open>app/exceptions.py\<close> (all subclasses of the framework's HTTP exception, each fixing
  its status code in \<^verbatim>\<open>__init__\<close>); the second group are Python's built-in
  exceptions and the validation error of the schema library; \<open>StoreError\<close> stands for
  any exception raised by the database driver, \<open>JSONDecodeError\<close> for a response body
  that is not JSON.
\<close>

datatype exc =
    SpotifyAPIError string
  | SpotifyAuthError string
  | RateLimitError nat
  | InvalidTokenError
  | InvalidTrackError
  | NotFoundError string
  | ValueError string
  | KeyError string
  | AttributeError
  | TypeError
  | ValidationError
  | RuntimeError string
  | JSONDecodeError
  | StoreError string

text \<open>
  \<^verbatim>\<open>status_code\<close> as each constructor of \<^verbatim>\<open>app/exceptions.py\<close> sets it.  An exception
  that is not an HTTP exception reaches the catch-all handler of \<^verbatim>\<open>main.py\<close>, which answers
  500.
\<close>

fun status_code :: "exc \<Rightarrow> nat" where
  "status_code (SpotifyAPIError d) = 502"
| "status_code (SpotifyAuthError d) = 401"
| "status_code (RateLimitError r) = 429"
| "status_code InvalidTokenError = 401"
| "status_code InvalidTrackError = 400"
| "status_code (NotFoundError r) = 404"
| "status_code e = 500"

fun detail :: "exc \<Rightarrow> string" where
  "detail (SpotifyAPIError d) = d"
| "detail (SpotifyAuthError d) = d"
| "detail (RateLimitError r) = ''Rate limit exceeded. Please slow down.''"
| "detail InvalidTokenError = ''Invalid or expired token''"
| "detail InvalidTrackError = ''Invalid track ID format''"
| "detail (NotFoundError r) = r @ '' not found''"
| "detail e = ''An unexpected error occurred''"

text \<open>The default argument of \<^verbatim>\<open>SpotifyAPIError.__init__\<close>.\<close>

definition SpotifyAPIError_default :: exc where
  "SpotifyAPIError_default = SpotifyAPIError ''Spotify service temporarily unavailable''"


section \<open>Validator\<close>

text \<open>
  Strings are lists of characters; a character stands for a code point below 256.
  \<open>isspace\<close> is Python's \<^verbatim>\<open>str.isspace\<close> on that range: U+0009 to U+000D, U+001C to
  U+0020, U+0085 and U+00A0.  \<open>strip\<close> is \<^verbatim>\<open>str.strip()\<close>.
\<close>

definition isspace :: "char \<Rightarrow> bool" where
  "isspace c = (let n = (of_char c :: nat) in
     (9 \<le> n \<and> n \<le> 13) \<or> (28 \<le> n \<and> n \<le> 32) \<or> n = 133 \<or> n = 160)"

definition strip :: "string \<Rightarrow> string" where
  "strip s = rev (dropWhile isspace (rev (dropWhile isspace s)))"

text \<open>The character class \<^verbatim>\<open>[A-Za-z0-9]\<close>.\<close>

definition base62 :: "char \<Rightarrow> bool" where
  "base62 c = (let n = (of_char c :: nat) in
     (65 \<le> n \<and> n \<le> 90) \<or> (97 \<le> n \<and> n \<le> 122) \<or> (48 \<le> n \<and> n \<le> 57))"

text \<open>
  \<^verbatim>\<open>re.match(r'^[A-Za-z0-9]{22}$', s)\<close>, as a truth value.  In Python \<^verbatim>\<open>$\<close> matches at the
  end of the string and also just before a newline that ends the string, so a string of
  22 base62 characters followed by one newline matches as well.
\<close>

definition re_match_track_id :: "string \<Rightarrow> bool" where
  "re_match_track_id s =
     ((length s = 22 \<and> list_all base62 s) \<or>
      (length s = 23 \<and> list_all base62 (take 22 s) \<and> s ! 22 = CHR 0x0A))"

text \<open>\<^verbatim>\<open>validate_track_id_param\<close> of \<^verbatim>\<open>routers/spotify.py\<close>.\<close>

definition validate_track_id_param :: "string \<Rightarrow> exc + string" where
  "validate_track_id_param track_id0 =
     (let track_id = strip track_id0 in
      if \<not> re_match_track_id track_id then Inl InvalidTrackError
      else Inr track_id)"

text \<open>
  \<^verbatim>\<open>validate_track_id\<close> of \<^verbatim>\<open>dependencies.py\<close>.  The argument is a string, so of the first
  test only \<^verbatim>\<open>not track_id\<close> (the empty string) remains.
\<close>

definition validate_track_id :: "string \<Rightarrow> exc + string" where
  "validate_track_id track_id0 =
     (if track_id0 = [] then Inl (ValueError ''Track ID required'')
      else let track_id = strip track_id0 in
        if \<not> re_match_track_id track_id then Inl (ValueError ''Invalid track ID format'')
        else Inr track_id)"

text \<open>
  The specification's TrackIdentifier: exactly 22 characters, each of the base62
  alphabet.
\<close>

definition is_track_identifier :: "string \<Rightarrow> bool" where
  "is_track_identifier s = (length s = 22 \<and> list_all base62 s)"


section \<open>Raw payloads\<close>

text \<open>
  An upstream payload is whatever \<^verbatim>\<open>response.json()\<close> returns: a JSON value.  \<open>JNull\<close> is
  Python's \<^verbatim>\<open>None\<close>, an object is the list of its entries (each key once, in order) and
  a number is a real: rounding, infinities and NaN of floating point are not modelled.
\<close>

datatype json =
    JNull
  | JBool bool
  | JNum real
  | JStr string
  | JArr "json list"
  | JObj "(string \<times> json) list"

text \<open>Python's truth value of an object, as \<^verbatim>\<open>if not analysis\<close> and \<^verbatim>\<open>if cached\<close> test it.\<close>

fun truthy :: "json \<Rightarrow> bool" where
  "truthy JNull = False"
| "truthy (JBool b) = b"
| "truthy (JNum r) = (r \<noteq> 0)"
| "truthy (JStr s) = (s \<noteq> [])"
| "truthy (JArr xs) = (xs \<noteq> [])"
| "truthy (JObj kvs) = (kvs \<noteq> [])"

text \<open>Sequencing of computations that may raise: the first exception wins.\<close>

definition bind_exc :: "exc + 'a \<Rightarrow> ('a \<Rightarrow> exc + 'b) \<Rightarrow> exc + 'b" where
  "bind_exc m f = (case m of Inl e \<Rightarrow> Inl e | Inr x \<Rightarrow> f x)"

text \<open>
  \<^verbatim>\<open>d.get(k, default)\<close>: only a dict has the method; on anything else the attribute
  lookup raises.
\<close>

fun py_get :: "json \<Rightarrow> string \<Rightarrow> json \<Rightarrow> exc + json" where
  "py_get (JObj kvs) k dflt = Inr (case map_of kvs k of Some v \<Rightarrow> v | None \<Rightarrow> dflt)"
| "py_get v k dflt = Inl AttributeError"

text \<open>
  \<^verbatim>\<open>d[k]\<close> with a string key: a dict without the key raises \<^verbatim>\<open>KeyError\<close>; a list or a
  string wants an integer index, and \<^verbatim>\<open>None\<close>, numbers and booleans cannot be
  subscripted.
\<close>

fun py_index :: "json \<Rightarrow> string \<Rightarrow> exc + json" where
  "py_index (JObj kvs) k = (case map_of kvs k of Some v \<Rightarrow> Inr v | None \<Rightarrow> Inl (KeyError k))"
| "py_index v k = Inl TypeError"

text \<open>
  \<^verbatim>\<open>v > c\<close> for a float constant \<open>c\<close>: numbers compare, a boolean counts as 0 or 1, and
  every other operand raises \<^verbatim>\<open>TypeError\<close>.
\<close>

fun py_gt :: "json \<Rightarrow> real \<Rightarrow> exc + bool" where
  "py_gt (JNum r) c = Inr (r > c)"
| "py_gt (JBool b) c = Inr ((if b then 1 else 0) > c)"
| "py_gt v c = Inl TypeError"

text \<open>
  \<^verbatim>\<open>for x in v\<close>: a list yields its elements, a string its characters, a dict its keys;
  nothing else can be iterated.
\<close>

fun py_iter :: "json \<Rightarrow> exc + json list" where
  "py_iter (JArr xs) = Inr xs"
| "py_iter (JStr s) = Inr (map (\<lambda>c. JStr [c]) s)"
| "py_iter (JObj kvs) = Inr (map (\<lambda>kv. JStr (fst kv)) kvs)"
| "py_iter v = Inl TypeError"

text \<open>
  \<^verbatim>\<open>v[:n]\<close>: lists and strings are sliced; \<^verbatim>\<open>None\<close>, numbers and booleans cannot be
  subscripted and a dict rejects a slice as key (with \<^verbatim>\<open>TypeError\<close>, up to Python 3.11).
\<close>

fun py_slice :: "nat \<Rightarrow> json \<Rightarrow> exc + json" where
  "py_slice n (JArr xs) = Inr (JArr (take n xs))"
| "py_slice n (JStr s) = Inr (JStr (take n s))"
| "py_slice n v = Inl TypeError"

text \<open>
  The list comprehension \<^verbatim>\<open>[f(x) for x in xs if p(x)]\<close>, where the test and the body may
  raise: elements are visited in order, and the first exception ends the comprehension.
\<close>

fun comprehension :: "('a \<Rightarrow> exc + bool) \<Rightarrow> ('a \<Rightarrow> exc + 'b) \<Rightarrow> 'a list \<Rightarrow> exc + 'b list" where
  "comprehension p f [] = Inr []"
| "comprehension p f (x # xs) =
     (case p x of
        Inl e \<Rightarrow> Inl e
      | Inr keep \<Rightarrow>
          if keep then
            (case f x of
               Inl e \<Rightarrow> Inl e
             | Inr y \<Rightarrow> (case comprehension p f xs of Inl e \<Rightarrow> Inl e | Inr ys \<Rightarrow> Inr (y # ys)))
          else comprehension p f xs)"


section \<open>Upstream Client\<close>

text \<open>
  What one HTTP call can end in: a response (status code, headers, and the body parsed as
  JSON, \<open>None\<close> when it is not JSON), \<^verbatim>\<open>httpx.TimeoutException\<close>, or another
  \<^verbatim>\<open>httpx.RequestError\<close>.
\<close>

datatype http_outcome =
    Response nat "(string \<times> string) list" "json option"
  | TimeoutException
  | RequestError

text \<open>
  \<^verbatim>\<open>response.headers.get(name, default)\<close>: header names compare without case, and the
  values of a header that occurs more than once are joined with a comma and a space, as
  \<^verbatim>\<open>httpx.Headers\<close> does.
\<close>

definition lower_char :: "char \<Rightarrow> char" where
  "lower_char c = (let n = (of_char c :: nat) in
     if 65 \<le> n \<and> n \<le> 90 then char_of (n + 32) else c)"

fun join_comma :: "string list \<Rightarrow> string" where
  "join_comma [] = []"
| "join_comma [v] = v"
| "join_comma (v # w # vs) = v @ '', '' @ join_comma (w # vs)"

definition headers_get :: "(string \<times> string) list \<Rightarrow> string \<Rightarrow> string \<Rightarrow> string" where
  "headers_get hs name dflt =
     (let vs = map snd (filter (\<lambda>kv. map lower_char (fst kv) = map lower_char name) hs)
      in if vs = [] then dflt else join_comma vs)"

text \<open>
  The value bound to \<^verbatim>\<open>retry_after\<close> on a 429.  The source uses it in one place, the
  warning it logs; logging is not part of the result and is left out of the model.
\<close>

definition retry_after :: "(string \<times> string) list \<Rightarrow> string" where
  "retry_after hs = headers_get hs ''Retry-After'' ''60''"

text \<open>
  \<^verbatim>\<open>SpotifyService._make_request\<close>, from the outcome of its HTTP call on.  The tests on
  the status code are in the source's order.  The exceptions raised inside the
  \<^verbatim>\<open>try\<close> are not \<^verbatim>\<open>httpx\<close> errors, so both \<^verbatim>\<open>except\<close> clauses let them through, and so
  they do the error of \<^verbatim>\<open>response.json()\<close> on a body that is not JSON.
\<close>

fun make_request :: "http_outcome \<Rightarrow> exc + json" where
  "make_request (Response status hs body) =
     (if status = 204 then Inr JNull
      else if status = 401 then Inl (SpotifyAuthError ''Token expired. Please re-authenticate.'')
      else if status = 404 then Inl (NotFoundError ''Track'')
      else if status = 429 then Inl (SpotifyAPIError ''Rate limited by Spotify. Try again shortly.'')
      else if status \<ge> 500 then Inl SpotifyAPIError_default
      else if status \<ge> 400 then Inl (SpotifyAPIError ''Request failed'')
      else (case body of None \<Rightarrow> Inl JSONDecodeError | Some j \<Rightarrow> Inr j))"
| "make_request TimeoutException = Inl (SpotifyAPIError ''Spotify is not responding. Try again.'')"
| "make_request RequestError = Inl SpotifyAPIError_default"


section \<open>Response models\<close>

text \<open>
  The models of \<^verbatim>\<open>models/schemas.py\<close>.  Field names carry the model's prefix, since a
  field name is global here: \<open>beat_start\<close> is \<^verbatim>\<open>BeatData.start\<close>, \<open>seg_start\<close> is
  \<^verbatim>\<open>SegmentData.start\<close>, \<open>sec_start\<close> is \<^verbatim>\<open>SectionData.start\<close>.
\<close>

record BeatData =
  beat_start :: real
  beat_duration :: real
  beat_confidence :: real

record SegmentData =
  seg_start :: real
  seg_duration :: real
  seg_loudness :: real
  seg_pitches :: "real list"
  seg_timbre :: "real list"

record SectionData =
  sec_start :: real
  sec_duration :: real
  sec_tempo :: real
  sec_key :: int
  sec_mode :: int
  sec_loudness :: real

record AnalysisResponse =
  track_id :: string
  duration :: real
  tempo :: real
  energy :: real
  beats :: "BeatData list"
  segments :: "SegmentData list"
  sections :: "SectionData list"

text \<open>
  Validation of one field value.  A \<^verbatim>\<open>float\<close> field takes a number that converts to a
  double: a payload's float is one already, and an integer converts when its magnitude
  is below \<open>2 ^ 1024 - 2 ^ 970\<close>, the midpoint above the largest double, from which on
  Python's conversion overflows and validation fails.  What the schema library makes of
  a string or a boolean in such a field (its lax mode converts some of them) is not code
  of this repository: it is the parameter \<open>lax\<close>.  Nothing else is a float.  An
  \<^verbatim>\<open>int\<close> field takes a number that has no fractional part, and a string or boolean the
  library converts to such a number.
\<close>

definition float_limit :: real where
  "float_limit = 2 ^ 1024 - 2 ^ 970"

definition in_float_range :: "real \<Rightarrow> bool" where
  "in_float_range r = (\<bar>r\<bar> < float_limit)"

fun to_float :: "(json \<Rightarrow> real option) \<Rightarrow> json \<Rightarrow> real option" where
  "to_float lax (JNum r) = (if in_float_range r then Some r else None)"
| "to_float lax (JBool b) = lax (JBool b)"
| "to_float lax (JStr s) = lax (JStr s)"
| "to_float lax v = None"

definition whole :: "real \<Rightarrow> int option" where
  "whole r = (if r = of_int \<lfloor>r\<rfloor> then Some \<lfloor>r\<rfloor> else None)"

fun to_int :: "(json \<Rightarrow> real option) \<Rightarrow> json \<Rightarrow> int option" where
  "to_int lax (JNum r) = whole r"
| "to_int lax v = (case to_float lax v of None \<Rightarrow> None | Some r \<Rightarrow> whole r)"

text \<open>\<^verbatim>\<open>list[float]\<close>: a list, each element a float.\<close>

fun to_floats :: "(json \<Rightarrow> real option) \<Rightarrow> json list \<Rightarrow> real list option" where
  "to_floats lax [] = Some []"
| "to_floats lax (v # vs) =
     (case to_float lax v of
        None \<Rightarrow> None
      | Some r \<Rightarrow> (case to_floats lax vs of None \<Rightarrow> None | Some rs \<Rightarrow> Some (r # rs)))"

fun to_float_list :: "(json \<Rightarrow> real option) \<Rightarrow> json \<Rightarrow> real list option" where
  "to_float_list lax (JArr vs) = to_floats lax vs"
| "to_float_list lax v = None"

text \<open>
  \<^verbatim>\<open>BeatData(start=s, duration=d, confidence=c)\<close>: each field validated, with the bounds
  of its \<^verbatim>\<open>Field\<close>: \<^verbatim>\<open>start\<close> at least 0, \<^verbatim>\<open>duration\<close> above 0, \<^verbatim>\<open>confidence\<close> from 0 to 1.
\<close>

definition BeatData_init ::
    "(json \<Rightarrow> real option) \<Rightarrow> json \<Rightarrow> json \<Rightarrow> json \<Rightarrow> exc + BeatData" where
  "BeatData_init lax s d c =
     (case to_float lax s of None \<Rightarrow> Inl ValidationError | Some s' \<Rightarrow>
     (case to_float lax d of None \<Rightarrow> Inl ValidationError | Some d' \<Rightarrow>
     (case to_float lax c of None \<Rightarrow> Inl ValidationError | Some c' \<Rightarrow>
        if 0 \<le> s' \<and> 0 < d' \<and> 0 \<le> c' \<and> c' \<le> 1
        then Inr \<lparr>beat_start = s', beat_duration = d', beat_confidence = c'\<rparr>
        else Inl ValidationError)))"

text \<open>
  \<^verbatim>\<open>SegmentData(...)\<close>: \<^verbatim>\<open>pitches\<close> and \<^verbatim>\<open>timbre\<close> have \<^verbatim>\<open>min_length=12\<close> and
  \<^verbatim>\<open>max_length=12\<close>.
\<close>

definition SegmentData_init ::
    "(json \<Rightarrow> real option) \<Rightarrow> json \<Rightarrow> json \<Rightarrow> json \<Rightarrow> json \<Rightarrow> json \<Rightarrow> exc + SegmentData" where
  "SegmentData_init lax s d l p t =
     (case to_float lax s of None \<Rightarrow> Inl ValidationError | Some s' \<Rightarrow>
     (case to_float lax d of None \<Rightarrow> Inl ValidationError | Some d' \<Rightarrow>
     (case to_float lax l of None \<Rightarrow> Inl ValidationError | Some l' \<Rightarrow>
     (case to_float_list lax p of None \<Rightarrow> Inl ValidationError | Some p' \<Rightarrow>
     (case to_float_list lax t of None \<Rightarrow> Inl ValidationError | Some t' \<Rightarrow>
        if 0 \<le> s' \<and> 0 < d' \<and> length p' = 12 \<and> length t' = 12
        then Inr \<lparr>seg_start = s', seg_duration = d', seg_loudness = l',
                  seg_pitches = p', seg_timbre = t'\<rparr>
        else Inl ValidationError)))))"

text \<open>
  \<^verbatim>\<open>SectionData(...)\<close>: \<^verbatim>\<open>tempo\<close> above 0, \<^verbatim>\<open>key\<close> an integer from -1 to 11, \<^verbatim>\<open>mode\<close> 0 or 1.
\<close>

definition SectionData_init ::
    "(json \<Rightarrow> real option) \<Rightarrow> json \<Rightarrow> json \<Rightarrow> json \<Rightarrow> json \<Rightarrow> json \<Rightarrow> json \<Rightarrow> exc + SectionData" where
  "SectionData_init lax s d tp k m l =
     (case to_float lax s of None \<Rightarrow> Inl ValidationError | Some s' \<Rightarrow>
     (case to_float lax d of None \<Rightarrow> Inl ValidationError | Some d' \<Rightarrow>
     (case to_float lax tp of None \<Rightarrow> Inl ValidationError | Some tp' \<Rightarrow>
     (case to_int lax k of None \<Rightarrow> Inl ValidationError | Some k' \<Rightarrow>
     (case to_int lax m of None \<Rightarrow> Inl ValidationError | Some m' \<Rightarrow>
     (case to_float lax l of None \<Rightarrow> Inl ValidationError | Some l' \<Rightarrow>
        if 0 \<le> s' \<and> 0 < d' \<and> 0 < tp' \<and> - 1 \<le> k' \<and> k' \<le> 11 \<and> 0 \<le> m' \<and> m' \<le> 1
        then Inr \<lparr>sec_start = s', sec_duration = d', sec_tempo = tp', sec_key = k',
                  sec_mode = m', sec_loudness = l'\<rparr>
        else Inl ValidationError))))))"

text \<open>
  \<^verbatim>\<open>AnalysisResponse(track_id=..., duration=..., tempo=..., energy=..., beats=...,
  segments=..., sections=...)\<close> as \<^verbatim>\<open>process_analysis\<close> calls it: the identifier is a
  string and the three lists hold instances of their models already, so the three floats
  are what is left to validate; they have no bounds.
\<close>

definition AnalysisResponse_init ::
    "(json \<Rightarrow> real option) \<Rightarrow> string \<Rightarrow> json \<Rightarrow> json \<Rightarrow> json \<Rightarrow>
     BeatData list \<Rightarrow> SegmentData list \<Rightarrow> SectionData list \<Rightarrow> exc + AnalysisResponse" where
  "AnalysisResponse_init lax tid d tp en bs sgs scs =
     (case to_float lax d of None \<Rightarrow> Inl ValidationError | Some d' \<Rightarrow>
     (case to_float lax tp of None \<Rightarrow> Inl ValidationError | Some tp' \<Rightarrow>
     (case to_float lax en of None \<Rightarrow> Inl ValidationError | Some en' \<Rightarrow>
        Inr \<lparr>track_id = tid, duration = d', tempo = tp', energy = en',
             beats = bs, segments = sgs, sections = scs\<rparr>)))"


section \<open>Analysis Transformer\<close>

text \<open>The default \<^verbatim>\<open>[0] * 12\<close>.\<close>

definition twelve_zeros :: json where
  "twelve_zeros = JArr (replicate 12 (JNum 0))"

text \<open>
  The three comprehensions of \<^verbatim>\<open>process_analysis\<close>, each as its test and its body on
  one raw record.  Keyword arguments are evaluated left to right, before the model
  validates them.
\<close>

definition beat_test :: "json \<Rightarrow> exc + bool" where
  "beat_test b = bind_exc (py_get b ''confidence'' (JNum 0)) (\<lambda>c. py_gt c 0.3)"

definition beat_of :: "(json \<Rightarrow> real option) \<Rightarrow> json \<Rightarrow> exc + BeatData" where
  "beat_of lax b =
     bind_exc (py_index b ''start'') (\<lambda>s.
     bind_exc (py_index b ''duration'') (\<lambda>d.
     bind_exc (py_index b ''confidence'') (\<lambda>c.
       BeatData_init lax s d c)))"

definition segment_of :: "(json \<Rightarrow> real option) \<Rightarrow> json \<Rightarrow> exc + SegmentData" where
  "segment_of lax s =
     bind_exc (py_index s ''start'') (\<lambda>st.
     bind_exc (py_index s ''duration'') (\<lambda>d.
     bind_exc (py_get s ''loudness'' (JNum (- 60))) (\<lambda>l0.
     bind_exc (py_get s ''loudness_start'' l0) (\<lambda>l.
     bind_exc (py_get s ''pitches'' twelve_zeros) (\<lambda>p.
     bind_exc (py_get s ''timbre'' twelve_zeros) (\<lambda>t.
       SegmentData_init lax st d l p t))))))"

definition section_of :: "(json \<Rightarrow> real option) \<Rightarrow> json \<Rightarrow> exc + SectionData" where
  "section_of lax s =
     bind_exc (py_index s ''start'') (\<lambda>st.
     bind_exc (py_index s ''duration'') (\<lambda>d.
     bind_exc (py_get s ''tempo'' (JNum 120)) (\<lambda>tp.
     bind_exc (py_get s ''key'' (JNum (- 1))) (\<lambda>k.
     bind_exc (py_get s ''mode'' (JNum 0)) (\<lambda>m.
     bind_exc (py_get s ''loudness'' (JNum (- 10))) (\<lambda>l.
       SectionData_init lax st d tp k m l))))))"

definition always :: "json \<Rightarrow> exc + bool" where
  "always s = Inr True"

text \<open>
  \<^verbatim>\<open>process_analysis(track_id, analysis, features)\<close>.  \<^verbatim>\<open>features\<close> is what the features
  call returned, \<open>JNull\<close> when that was \<^verbatim>\<open>None\<close>.
\<close>

definition process_analysis ::
    "(json \<Rightarrow> real option) \<Rightarrow> string \<Rightarrow> json \<Rightarrow> json \<Rightarrow> exc + AnalysisResponse" where
  "process_analysis lax tid analysis features =
     bind_exc (py_get analysis ''beats'' (JArr [])) (\<lambda>raw_beats.
     bind_exc (py_iter raw_beats) (\<lambda>bs.
     bind_exc (comprehension beat_test (beat_of lax) bs) (\<lambda>beats'.
     bind_exc (py_get analysis ''segments'' (JArr [])) (\<lambda>raw_segments.
     bind_exc (py_slice 2000 raw_segments) (\<lambda>capped.
     bind_exc (py_iter capped) (\<lambda>ss.
     bind_exc (comprehension always (segment_of lax) ss) (\<lambda>segments'.
     bind_exc (py_get analysis ''sections'' (JArr [])) (\<lambda>raw_sections.
     bind_exc (py_iter raw_sections) (\<lambda>cs.
     bind_exc (comprehension always (section_of lax) cs) (\<lambda>sections'.
     bind_exc (py_get analysis ''track'' (JObj [])) (\<lambda>track_info.
     bind_exc (py_get track_info ''duration'' (JNum 0)) (\<lambda>d.
     bind_exc (py_get track_info ''tempo'' (JNum 120)) (\<lambda>tp0.
     bind_exc (py_get features ''tempo'' tp0) (\<lambda>tp.
     bind_exc (py_get features ''energy'' (JNum 0.5)) (\<lambda>en.
       AnalysisResponse_init lax tid d tp en beats' segments' sections')))))))))))))))"


text \<open>
  \<^verbatim>\<open>model_dump()\<close>: the model as a dict, nested models as dicts, fields in the order of
  their declaration.
\<close>

definition BeatData_dump :: "BeatData \<Rightarrow> json" where
  "BeatData_dump b =
     JObj [(''start'', JNum (beat_start b)), (''duration'', JNum (beat_duration b)),
           (''confidence'', JNum (beat_confidence b))]"

definition SegmentData_dump :: "SegmentData \<Rightarrow> json" where
  "SegmentData_dump s =
     JObj [(''start'', JNum (seg_start s)), (''duration'', JNum (seg_duration s)),
           (''loudness'', JNum (seg_loudness s)),
           (''pitches'', JArr (map JNum (seg_pitches s))),
           (''timbre'', JArr (map JNum (seg_timbre s)))]"

definition SectionData_dump :: "SectionData \<Rightarrow> json" where
  "SectionData_dump c =
     JObj [(''start'', JNum (sec_start c)), (''duration'', JNum (sec_duration c)),
           (''tempo'', JNum (sec_tempo c)), (''key'', JNum (of_int (sec_key c))),
           (''mode'', JNum (of_int (sec_mode c))), (''loudness'', JNum (sec_loudness c))]"

definition model_dump :: "AnalysisResponse \<Rightarrow> json" where
  "model_dump r =
     JObj [(''track_id'', JStr (track_id r)), (''duration'', JNum (duration r)),
           (''tempo'', JNum (tempo r)), (''energy'', JNum (energy r)),
           (''beats'', JArr (map BeatData_dump (beats r))),
           (''segments'', JArr (map SegmentData_dump (segments r))),
           (''sections'', JArr (map SectionData_dump (sections r)))]"

text \<open>
  \<^verbatim>\<open>AnalysisResponse(**cached)\<close>: the model validated from a dict.  Unpacking anything
  but a mapping is a \<^verbatim>\<open>TypeError\<close>; a required field that is missing, a value of the
  wrong type and a nested record that is no dict fail validation; keys the model does
  not declare are ignored.
\<close>

definition required :: "(string \<times> json) list \<Rightarrow> string \<Rightarrow> exc + json" where
  "required kvs k = (case map_of kvs k of None \<Rightarrow> Inl ValidationError | Some v \<Rightarrow> Inr v)"

fun BeatData_validate :: "(json \<Rightarrow> real option) \<Rightarrow> json \<Rightarrow> exc + BeatData" where
  "BeatData_validate lax (JObj kvs) =
     bind_exc (required kvs ''start'') (\<lambda>s.
     bind_exc (required kvs ''duration'') (\<lambda>d.
     bind_exc (required kvs ''confidence'') (\<lambda>c.
       BeatData_init lax s d c)))"
| "BeatData_validate lax v = Inl ValidationError"

fun SegmentData_validate :: "(json \<Rightarrow> real option) \<Rightarrow> json \<Rightarrow> exc + SegmentData" where
  "SegmentData_validate lax (JObj kvs) =
     bind_exc (required kvs ''start'') (\<lambda>s.
     bind_exc (required kvs ''duration'') (\<lambda>d.
     bind_exc (required kvs ''loudness'') (\<lambda>l.
     bind_exc (required kvs ''pitches'') (\<lambda>p.
     bind_exc (required kvs ''timbre'') (\<lambda>t.
       SegmentData_init lax s d l p t)))))"
| "SegmentData_validate lax v = Inl ValidationError"

fun SectionData_validate :: "(json \<Rightarrow> real option) \<Rightarrow> json \<Rightarrow> exc + SectionData" where
  "SectionData_validate lax (JObj kvs) =
     bind_exc (required kvs ''start'') (\<lambda>s.
     bind_exc (required kvs ''duration'') (\<lambda>d.
     bind_exc (required kvs ''tempo'') (\<lambda>tp.
     bind_exc (required kvs ''key'') (\<lambda>k.
     bind_exc (required kvs ''mode'') (\<lambda>m.
     bind_exc (required kvs ''loudness'') (\<lambda>l.
       SectionData_init lax s d tp k m l))))))"
| "SectionData_validate lax v = Inl ValidationError"

fun validate_list :: "(json \<Rightarrow> exc + 'a) \<Rightarrow> json \<Rightarrow> exc + 'a list" where
  "validate_list f (JArr xs) = comprehension (\<lambda>x. Inr True) f xs"
| "validate_list f v = Inl ValidationError"

fun validate_str :: "json \<Rightarrow> exc + string" where
  "validate_str (JStr s) = Inr s"
| "validate_str v = Inl ValidationError"

fun AnalysisResponse_validate :: "(json \<Rightarrow> real option) \<Rightarrow> json \<Rightarrow> exc + AnalysisResponse" where
  "AnalysisResponse_validate lax (JObj kvs) =
     bind_exc (required kvs ''track_id'') (\<lambda>tid.
     bind_exc (validate_str tid) (\<lambda>tid'.
     bind_exc (required kvs ''duration'') (\<lambda>d.
     bind_exc (required kvs ''tempo'') (\<lambda>tp.
     bind_exc (required kvs ''energy'') (\<lambda>en.
     bind_exc (required kvs ''beats'') (\<lambda>bs.
     bind_exc (validate_list (BeatData_validate lax) bs) (\<lambda>bs'.
     bind_exc (required kvs ''segments'') (\<lambda>sgs.
     bind_exc (validate_list (SegmentData_validate lax) sgs) (\<lambda>sgs'.
     bind_exc (required kvs ''sections'') (\<lambda>scs.
     bind_exc (validate_list (SectionData_validate lax) scs) (\<lambda>scs'.
       AnalysisResponse_init lax tid' d tp en bs' sgs' scs')))))))))))"
| "AnalysisResponse_validate lax v = Inl TypeError"


text \<open>A schema library that converts nothing: every string and boolean is rejected.\<close>

definition no_coercion :: "json \<Rightarrow> real option" where
  "no_coercion v = None"


section \<open>The transformer as the specification words it\<close>

text \<open>
  The payloads the specification's defaults are about: every field that is present holds
  a value of its type and range, and only optional fields are absent.  \<open>present_num\<close>
  asks for a key that is there and holds a number that converts to a double and has the
  property \<open>P\<close>; \<open>optional_num\<close> lets the key be absent; \<open>optional_floats12\<close> is an
  absent key or a list of twelve such numbers.
\<close>

fun is_num :: "json \<Rightarrow> bool" where
  "is_num (JNum r) = in_float_range r"
| "is_num v = False"

fun num_val :: "json \<Rightarrow> real" where
  "num_val (JNum r) = r"
| "num_val v = 0"

definition present_num :: "(string \<times> json) list \<Rightarrow> string \<Rightarrow> (real \<Rightarrow> bool) \<Rightarrow> bool" where
  "present_num kvs k P =
     (case map_of kvs k of Some (JNum r) \<Rightarrow> in_float_range r \<and> P r | _ \<Rightarrow> False)"

definition optional_num :: "(string \<times> json) list \<Rightarrow> string \<Rightarrow> (real \<Rightarrow> bool) \<Rightarrow> bool" where
  "optional_num kvs k P =
     (case map_of kvs k of
        None \<Rightarrow> True
      | Some (JNum r) \<Rightarrow> in_float_range r \<and> P r
      | _ \<Rightarrow> False)"

definition optional_floats12 :: "(string \<times> json) list \<Rightarrow> string \<Rightarrow> bool" where
  "optional_floats12 kvs k =
     (case map_of kvs k of
        None \<Rightarrow> True
      | Some (JArr vs) \<Rightarrow> length vs = 12 \<and> list_all is_num vs
      | _ \<Rightarrow> False)"

definition any_real :: "real \<Rightarrow> bool" where
  "any_real r = True"

text \<open>
  A beat record: its confidence, when present, is a number; a beat that passes the
  filter (confidence above 0.3) has a confidence of at most 1 and carries \<^verbatim>\<open>start\<close> and
  \<^verbatim>\<open>duration\<close>.  The default confidence 0 of an absent key does not pass the filter.
\<close>

fun wf_beat :: "json \<Rightarrow> bool" where
  "wf_beat (JObj kvs) =
     optional_num kvs ''confidence'' (\<lambda>c. c \<le> 0.3 \<or>
        (c \<le> 1 \<and> present_num kvs ''start'' (\<lambda>s. 0 \<le> s) \<and> present_num kvs ''duration'' (\<lambda>d. 0 < d)))"
| "wf_beat v = False"

fun wf_segment :: "json \<Rightarrow> bool" where
  "wf_segment (JObj kvs) =
     (present_num kvs ''start'' (\<lambda>s. 0 \<le> s) \<and> present_num kvs ''duration'' (\<lambda>d. 0 < d) \<and>
      optional_num kvs ''loudness_start'' any_real \<and> optional_num kvs ''loudness'' any_real \<and>
      optional_floats12 kvs ''pitches'' \<and> optional_floats12 kvs ''timbre'')"
| "wf_segment v = False"

fun wf_section :: "json \<Rightarrow> bool" where
  "wf_section (JObj kvs) =
     (present_num kvs ''start'' (\<lambda>s. 0 \<le> s) \<and> present_num kvs ''duration'' (\<lambda>d. 0 < d) \<and>
      optional_num kvs ''tempo'' (\<lambda>t. 0 < t) \<and>
      optional_num kvs ''key'' (\<lambda>k. k = of_int \<lfloor>k\<rfloor> \<and> - 1 \<le> k \<and> k \<le> 11) \<and>
      optional_num kvs ''mode'' (\<lambda>m. m = 0 \<or> m = 1) \<and>
      optional_num kvs ''loudness'' any_real)"
| "wf_section v = False"

text \<open>The list under a key of the analysis payload; an absent key is the empty list.\<close>

definition raw_list :: "(string \<times> json) list \<Rightarrow> string \<Rightarrow> json list option" where
  "raw_list kvs k =
     (case map_of kvs k of None \<Rightarrow> Some [] | Some (JArr xs) \<Rightarrow> Some xs | _ \<Rightarrow> None)"

text \<open>The track summary of the analysis payload; an absent key is the empty object.\<close>

definition raw_track :: "(string \<times> json) list \<Rightarrow> (string \<times> json) list option" where
  "raw_track kvs =
     (case map_of kvs ''track'' of None \<Rightarrow> Some [] | Some (JObj t) \<Rightarrow> Some t | _ \<Rightarrow> None)"

fun wf_analysis :: "json \<Rightarrow> bool" where
  "wf_analysis (JObj kvs) =
     ((case raw_list kvs ''beats'' of None \<Rightarrow> False | Some bs \<Rightarrow> list_all wf_beat bs) \<and>
      (case raw_list kvs ''segments'' of None \<Rightarrow> False
       | Some ss \<Rightarrow> list_all wf_segment (take 2000 ss)) \<and>
      (case raw_list kvs ''sections'' of None \<Rightarrow> False | Some cs \<Rightarrow> list_all wf_section cs) \<and>
      (case raw_track kvs of None \<Rightarrow> False
       | Some t \<Rightarrow> optional_num t ''duration'' any_real \<and> optional_num t ''tempo'' any_real))"
| "wf_analysis v = False"

fun wf_features :: "json \<Rightarrow> bool" where
  "wf_features (JObj kvs) =
     (optional_num kvs ''tempo'' any_real \<and> optional_num kvs ''energy'' any_real)"
| "wf_features v = False"

text \<open>
  The value of a numeric field with its default, as the specification states it: the
  field's number when the key is present, the default when it is absent.
\<close>

definition num_or :: "(string \<times> json) list \<Rightarrow> string \<Rightarrow> real \<Rightarrow> real" where
  "num_or kvs k dflt = (case map_of kvs k of Some v \<Rightarrow> num_val v | None \<Rightarrow> dflt)"

text \<open>\<^verbatim>\<open>pitches\<close> and \<^verbatim>\<open>timbre\<close>: the list when present, twelve zeros when absent.\<close>

definition floats_or_zeros :: "(string \<times> json) list \<Rightarrow> string \<Rightarrow> real list" where
  "floats_or_zeros kvs k =
     (case map_of kvs k of Some (JArr vs) \<Rightarrow> map num_val vs | _ \<Rightarrow> replicate 12 0)"

text \<open>
  Segment loudness: \<^verbatim>\<open>loudness_start\<close> when present, else \<^verbatim>\<open>loudness\<close> when present,
  else -60.
\<close>

definition spec_loudness :: "(string \<times> json) list \<Rightarrow> real" where
  "spec_loudness kvs =
     (case map_of kvs ''loudness_start'' of
        Some v \<Rightarrow> num_val v
      | None \<Rightarrow> (case map_of kvs ''loudness'' of Some v \<Rightarrow> num_val v | None \<Rightarrow> - 60))"

fun spec_confident :: "json \<Rightarrow> bool" where
  "spec_confident (JObj kvs) = (num_or kvs ''confidence'' 0 > 0.3)"
| "spec_confident v = False"

fun spec_beat :: "json \<Rightarrow> BeatData" where
  "spec_beat (JObj kvs) =
     \<lparr>beat_start = num_or kvs ''start'' 0, beat_duration = num_or kvs ''duration'' 0,
      beat_confidence = num_or kvs ''confidence'' 0\<rparr>"
| "spec_beat v = \<lparr>beat_start = 0, beat_duration = 0, beat_confidence = 0\<rparr>"

fun spec_segment :: "json \<Rightarrow> SegmentData" where
  "spec_segment (JObj kvs) =
     \<lparr>seg_start = num_or kvs ''start'' 0, seg_duration = num_or kvs ''duration'' 0,
      seg_loudness = spec_loudness kvs,
      seg_pitches = floats_or_zeros kvs ''pitches'',
      seg_timbre = floats_or_zeros kvs ''timbre''\<rparr>"
| "spec_segment v =
     \<lparr>seg_start = 0, seg_duration = 0, seg_loudness = 0, seg_pitches = [], seg_timbre = []\<rparr>"

text \<open>Section defaults: tempo 120, key -1, mode 0, loudness -10.\<close>

fun spec_section :: "json \<Rightarrow> SectionData" where
  "spec_section (JObj kvs) =
     \<lparr>sec_start = num_or kvs ''start'' 0, sec_duration = num_or kvs ''duration'' 0,
      sec_tempo = num_or kvs ''tempo'' 120,
      sec_key = \<lfloor>num_or kvs ''key'' (- 1)\<rfloor>,
      sec_mode = \<lfloor>num_or kvs ''mode'' 0\<rfloor>,
      sec_loudness = num_or kvs ''loudness'' (- 10)\<rparr>"
| "spec_section v =
     \<lparr>sec_start = 0, sec_duration = 0, sec_tempo = 0, sec_key = 0, sec_mode = 0,
      sec_loudness = 0\<rparr>"

text \<open>
  The specification's \<open>transform\<close>: beats filtered by confidence, the first 2000
  segments, every section; duration from the track summary (default 0), tempo from the
  features, else from the track summary, else 120; energy from the features (default
  0.5).
\<close>

fun spec_transform :: "string \<Rightarrow> json \<Rightarrow> json \<Rightarrow> AnalysisResponse" where
  "spec_transform tid (JObj a) (JObj f) =
     (let t = (case raw_track a of Some t \<Rightarrow> t | None \<Rightarrow> []) in
      \<lparr>track_id = tid,
       duration = num_or t ''duration'' 0,
       tempo = num_or f ''tempo'' (num_or t ''tempo'' 120),
       energy = num_or f ''energy'' 0.5,
       beats = map spec_beat
                 (filter spec_confident (case raw_list a ''beats'' of Some bs \<Rightarrow> bs | None \<Rightarrow> [])),
       segments = map spec_segment
                 (take 2000 (case raw_list a ''segments'' of Some ss \<Rightarrow> ss | None \<Rightarrow> [])),
       sections = map spec_section
                 (case raw_list a ''sections'' of Some cs \<Rightarrow> cs | None \<Rightarrow> [])\<rparr>)"
| "spec_transform tid a f =
     \<lparr>track_id = tid, duration = 0, tempo = 120, energy = 0.5,
      beats = [], segments = [], sections = []\<rparr>"


text \<open>
  The specification's scenario: three beats of confidence 0.1, 0.5 and 0.9, 2500
  segments that carry \<^verbatim>\<open>start\<close> and \<^verbatim>\<open>duration\<close> only, and one section that carries
  \<^verbatim>\<open>start\<close> and \<^verbatim>\<open>duration\<close> only.
\<close>

definition example_beat :: "real \<Rightarrow> json" where
  "example_beat c = JObj [(''start'', JNum 1), (''duration'', JNum 0.5), (''confidence'', JNum c)]"

definition example_segment :: json where
  "example_segment = JObj [(''start'', JNum 0), (''duration'', JNum 0.25)]"

definition example_section :: json where
  "example_section = JObj [(''start'', JNum 0), (''duration'', JNum 30)]"

definition example_analysis :: json where
  "example_analysis =
     JObj [(''beats'', JArr [example_beat 0.1, example_beat 0.5, example_beat 0.9]),
           (''segments'', JArr (replicate 2500 example_segment)),
           (''sections'', JArr [example_section])]"

definition example_track_id :: string where
  "example_track_id = ''4uLU6hMCjMI75M1A2tKUQC''"

text \<open>
  What it is for an output segment to be a raw record kept: each of its fields is the
  validated value of the record's own field, \<^verbatim>\<open>start\<close> and \<^verbatim>\<open>duration\<close> being present, the
  loudness being that of \<^verbatim>\<open>loudness_start\<close>, else of \<^verbatim>\<open>loudness\<close>, else -60, and \<^verbatim>\<open>pitches\<close>
  and \<^verbatim>\<open>timbre\<close> being the record's lists, else twelve zeros.
\<close>

definition field_float :: "(json \<Rightarrow> real option) \<Rightarrow> json option \<Rightarrow> real option" where
  "field_float lax v = (case v of None \<Rightarrow> None | Some w \<Rightarrow> to_float lax w)"

fun kept_segment :: "(json \<Rightarrow> real option) \<Rightarrow> json \<Rightarrow> SegmentData \<Rightarrow> bool" where
  "kept_segment lax (JObj kvs) sg =
     (field_float lax (map_of kvs ''start'') = Some (seg_start sg) \<and>
      field_float lax (map_of kvs ''duration'') = Some (seg_duration sg) \<and>
      to_float lax
        (case map_of kvs ''loudness_start'' of
           Some v \<Rightarrow> v
         | None \<Rightarrow> (case map_of kvs ''loudness'' of Some v \<Rightarrow> v | None \<Rightarrow> JNum (- 60)))
        = Some (seg_loudness sg) \<and>
      to_float_list lax (case map_of kvs ''pitches'' of Some v \<Rightarrow> v | None \<Rightarrow> twelve_zeros)
        = Some (seg_pitches sg) \<and>
      to_float_list lax (case map_of kvs ''timbre'' of Some v \<Rightarrow> v | None \<Rightarrow> twelve_zeros)
        = Some (seg_timbre sg))"
| "kept_segment lax v sg = False"

text \<open>
  What every record the transformer builds from must have: \<^verbatim>\<open>start\<close> and \<^verbatim>\<open>duration\<close>, and,
  for a list under \<^verbatim>\<open>pitches\<close> or \<^verbatim>\<open>timbre\<close>, twelve elements.
\<close>

fun has_start_duration :: "json \<Rightarrow> bool" where
  "has_start_duration (JObj kvs) =
     (map_of kvs ''start'' \<noteq> None \<and> map_of kvs ''duration'' \<noteq> None)"
| "has_start_duration v = False"

fun twelve_if_list :: "string \<Rightarrow> json \<Rightarrow> bool" where
  "twelve_if_list k (JObj kvs) =
     (case map_of kvs k of Some (JArr vs) \<Rightarrow> length vs = 12 | _ \<Rightarrow> True)"
| "twelve_if_list k v = True"

text \<open>
  A payload of 2500 segments that differ from one another: the \<open>i\<close>-th starts at \<open>i\<close>
  and has loudness \<open>-i\<close>.
\<close>

definition numbered_segment :: "nat \<Rightarrow> json" where
  "numbered_segment i =
     JObj [(''start'', JNum (real i)), (''duration'', JNum 0.25),
           (''loudness_start'', JNum (- real i))]"

definition numbered_analysis :: json where
  "numbered_analysis = JObj [(''segments'', JArr (map numbered_segment [0..<2500]))]"

text \<open>An upstream whose answers are all 200 with a body that is not JSON.\<close>

definition not_json :: "string \<Rightarrow> string \<Rightarrow> http_outcome" where
  "not_json token endpoint = Response 200 [] None"


section \<open>Cache Store\<close>

text \<open>
  The collection \<^verbatim>\<open>analysis_cache\<close> holds the documents \<^verbatim>\<open>cache_analysis\<close> writes: a track
  identifier, the dumped analysis and the time of writing (in seconds).  The database
  itself is not code of this repository; it is modelled by what its operations are
  documented to do.  \<open>find_one\<close> returns the first document of the track, \<open>update_one\<close>
  with \<^verbatim>\<open>upsert=True\<close> and a \<^verbatim>\<open>$set\<close> of all three fields overwrites the first document
  of the track or, when there is none, inserts one.  Either call can fail: the argument
  \<open>fault\<close> is the exception the driver raises in this call, if any, and a call that
  fails leaves the collection as it was.
\<close>

record doc =
  doc_track_id :: string
  doc_analysis :: json
  cached_at :: nat

definition find_one :: "exc option \<Rightarrow> doc list \<Rightarrow> string \<Rightarrow> exc + doc option" where
  "find_one fault docs tid =
     (case fault of Some e \<Rightarrow> Inl e | None \<Rightarrow> Inr (find (\<lambda>d. doc_track_id d = tid) docs))"

fun upsert :: "doc list \<Rightarrow> string \<Rightarrow> json \<Rightarrow> nat \<Rightarrow> doc list" where
  "upsert [] tid a now = [\<lparr>doc_track_id = tid, doc_analysis = a, cached_at = now\<rparr>]"
| "upsert (d # ds) tid a now =
     (if doc_track_id d = tid
      then d\<lparr>doc_track_id := tid, doc_analysis := a, cached_at := now\<rparr> # ds
      else d # upsert ds tid a now)"

definition update_one :: "exc option \<Rightarrow> doc list \<Rightarrow> string \<Rightarrow> json \<Rightarrow> nat \<Rightarrow> exc + doc list" where
  "update_one fault docs tid a now =
     (case fault of Some e \<Rightarrow> Inl e | None \<Rightarrow> Inr (upsert docs tid a now))"

text \<open>
  The index \<^verbatim>\<open>connect_db\<close> creates on \<^verbatim>\<open>cached_at\<close>, with \<^verbatim>\<open>expireAfterSeconds=60*60*24*7\<close>:
  a background pass of the database, at a time of its own choosing, deletes the documents
  that are older.
\<close>

definition expireAfterSeconds :: nat where
  "expireAfterSeconds = 60 * 60 * 24 * 7"

definition expired :: "nat \<Rightarrow> doc \<Rightarrow> bool" where
  "expired now d = (cached_at d + expireAfterSeconds < now)"

definition ttl_monitor :: "nat \<Rightarrow> doc list \<Rightarrow> doc list" where
  "ttl_monitor now docs = filter (\<lambda>d. \<not> expired now d) docs"

text \<open>
  \<^verbatim>\<open>get_db\<close>: the module's global \<^verbatim>\<open>_db\<close> is \<open>None\<close> until \<^verbatim>\<open>connect_db\<close> has run.
\<close>

definition get_db :: "doc list option \<Rightarrow> exc + doc list" where
  "get_db db =
     (case db of
        None \<Rightarrow> Inl (RuntimeError ''Database not initialized. Call connect_db() first.'')
      | Some docs \<Rightarrow> Inr docs)"

text \<open>
  \<^verbatim>\<open>get_cached_analysis\<close>.  \<^verbatim>\<open>get_db()\<close> is called before the \<^verbatim>\<open>try\<close>; inside it, every
  exception is caught and answered with \<^verbatim>\<open>None\<close>.  The projection keeps the field
  \<^verbatim>\<open>analysis\<close>, so a document that is found is a non-empty dict and \<^verbatim>\<open>doc.get("analysis")\<close>
  is its analysis.
\<close>

definition get_cached_analysis :: "exc option \<Rightarrow> doc list option \<Rightarrow> string \<Rightarrow> exc + json" where
  "get_cached_analysis fault db tid =
     (case get_db db of
        Inl e \<Rightarrow> Inl e
      | Inr docs \<Rightarrow>
          (case find_one fault docs tid of
             Inl e \<Rightarrow> Inr JNull
           | Inr None \<Rightarrow> Inr JNull
           | Inr (Some d) \<Rightarrow> Inr (doc_analysis d)))"

text \<open>
  \<^verbatim>\<open>cache_analysis\<close>, with \<open>now\<close> for \<^verbatim>\<open>datetime.utcnow()\<close>: the result and the collection
  afterwards.
\<close>

definition cache_analysis ::
    "exc option \<Rightarrow> nat \<Rightarrow> doc list option \<Rightarrow> string \<Rightarrow> json \<Rightarrow> (exc + bool) \<times> doc list option" where
  "cache_analysis fault now db tid a =
     (case get_db db of
        Inl e \<Rightarrow> (Inl e, db)
      | Inr docs \<Rightarrow>
          (case update_one fault docs tid a now of
             Inl e \<Rightarrow> (Inr False, db)
           | Inr docs' \<Rightarrow> (Inr True, Some docs')))"


section \<open>Token check\<close>

text \<open>
  \<^verbatim>\<open>validate_spotify_token_format\<close> and \<^verbatim>\<open>get_spotify_token\<close> of \<^verbatim>\<open>dependencies.py\<close>.  The
  pattern \<^verbatim>\<open>^[A-Za-z0-9_\-]+$\<close> also matches before a final newline.
\<close>

definition token_char :: "char \<Rightarrow> bool" where
  "token_char c = (base62 c \<or> c = CHR ''_'' \<or> c = CHR ''-'')"

definition re_match_token :: "string \<Rightarrow> bool" where
  "re_match_token s =
     ((s \<noteq> [] \<and> list_all token_char s) \<or>
      (2 \<le> length s \<and> list_all token_char (butlast s) \<and> last s = CHR 0x0A))"

definition validate_spotify_token_format :: "string \<Rightarrow> bool" where
  "validate_spotify_token_format token =
     (if token = [] then False
      else if length token < 50 \<or> length token > 500 then False
      else if \<not> re_match_token token then False
      else True)"

definition get_spotify_token :: "string option \<Rightarrow> exc + string" where
  "get_spotify_token authorization =
     (case authorization of
        None \<Rightarrow> Inl InvalidTokenError
      | Some a \<Rightarrow>
          if a = [] then Inl InvalidTokenError
          else if take 7 a \<noteq> ''Bearer '' then Inl InvalidTokenError
          else let token = drop 7 a in
            if \<not> validate_spotify_token_format token then Inl InvalidTokenError
            else Inr token)"


section \<open>Analysis Orchestrator\<close>

text \<open>
  What a request meets outside the handler: the upstream's answer to a call (by bearer
  token and endpoint), the faults of the cache read and the cache write, the clock, and
  the schema library's conversion.
\<close>

record env =
  upstream :: "string \<Rightarrow> string \<Rightarrow> http_outcome"
  read_fault :: "exc option"
  write_fault :: "exc option"
  utcnow :: nat
  coerce :: "json \<Rightarrow> real option"

text \<open>
  The two calls of \<^verbatim>\<open>SpotifyService\<close> the handler makes; the service carries the token of
  its constructor in the request's headers.
\<close>

definition audio_analysis_endpoint :: "string \<Rightarrow> string" where
  "audio_analysis_endpoint tid = ''/audio-analysis/'' @ tid"

definition audio_features_endpoint :: "string \<Rightarrow> string" where
  "audio_features_endpoint tid = ''/audio-features/'' @ tid"

definition get_audio_analysis :: "env \<Rightarrow> string \<Rightarrow> string \<Rightarrow> exc + json" where
  "get_audio_analysis e token tid = make_request (upstream e token (audio_analysis_endpoint tid))"

definition get_audio_features :: "env \<Rightarrow> string \<Rightarrow> string \<Rightarrow> exc + json" where
  "get_audio_features e token tid = make_request (upstream e token (audio_features_endpoint tid))"

text \<open>
  The handler \<^verbatim>\<open>get_analysis\<close>, after its dependencies have supplied the token.  It
  returns the response or the exception, the upstream calls it made (token and endpoint,
  in order) and the collection afterwards.
\<close>

definition get_analysis ::
    "env \<Rightarrow> doc list option \<Rightarrow> string \<Rightarrow> string \<Rightarrow>
     (exc + AnalysisResponse) \<times> (string \<times> string) list \<times> doc list option" where
  "get_analysis e db token track_id0 =
     (case validate_track_id_param track_id0 of
        Inl x \<Rightarrow> (Inl x, [], db)
      | Inr tid \<Rightarrow>
     (case get_cached_analysis (read_fault e) db tid of
        Inl x \<Rightarrow> (Inl x, [], db)
      | Inr cached \<Rightarrow>
     if truthy cached then (AnalysisResponse_validate (coerce e) cached, [], db)
     else
       let c1 = (token, audio_analysis_endpoint tid);
           c2 = (token, audio_features_endpoint tid) in
     (case get_audio_analysis e token tid of
        Inl x \<Rightarrow> (Inl x, [c1], db)
      | Inr analysis \<Rightarrow>
     (case get_audio_features e token tid of
        Inl x \<Rightarrow> (Inl x, [c1, c2], db)
      | Inr features \<Rightarrow>
     if \<not> truthy analysis then (Inl (NotFoundError ''Track analysis''), [c1, c2], db)
     else
     (case process_analysis (coerce e) tid analysis features of
        Inl x \<Rightarrow> (Inl x, [c1, c2], db)
      | Inr processed \<Rightarrow>
     (case cache_analysis (write_fault e) (utcnow e) db tid (model_dump processed) of
        (Inl x, db') \<Rightarrow> (Inl x, [c1, c2], db')
      | (Inr ok, db') \<Rightarrow> (Inr processed, [c1, c2], db')))))))"


text \<open>
  A small response and the document that caches it, written at time 0; an upstream whose
  analysis endpoint answers with the scenario's payload while its features endpoint
  answers 503; and a request environment with that upstream, no cache fault, and the
  clock one second past the index's expiry of a document written at time 0.
\<close>

definition example_response :: AnalysisResponse where
  "example_response =
     \<lparr>track_id = example_track_id, duration = 200, tempo = 120, energy = 0.5,
      beats = [], segments = [], sections = []\<rparr>"

definition stale_doc :: doc where
  "stale_doc =
     \<lparr>doc_track_id = example_track_id, doc_analysis = model_dump example_response,
      cached_at = 0\<rparr>"

definition features_down :: "string \<Rightarrow> string \<Rightarrow> http_outcome" where
  "features_down token endpoint =
     (if endpoint = audio_analysis_endpoint example_track_id
      then Response 200 [] (Some example_analysis)
      else Response 503 [] None)"

definition example_env :: env where
  "example_env =
     \<lparr>upstream = features_down, read_fault = None, write_fault = None,
      utcnow = expireAfterSeconds + 1, coerce = no_coercion\<rparr>"

definition example_token :: string where
  "example_token = replicate 60 (CHR ''a'')"

definition other_token :: string where
  "other_token = replicate 64 (CHR ''b'')"

text \<open>An upstream that answers every call with 503.\<close>

definition all_down :: "string \<Rightarrow> string \<Rightarrow> http_outcome" where
  "all_down token endpoint = Response 503 [] None"


section \<open>Properties of the validator\<close>

lemma isspace_newline: "isspace (CHR 0x0A)"
  by (simp add: isspace_def)

lemma strip_last_not_space:
  assumes "strip s \<noteq> []"
  shows "\<not> isspace (last (strip s))"
proof -
  let ?ys = "dropWhile isspace (rev (dropWhile isspace s))"
  from assms have ne: "?ys \<noteq> []"
    by (simp add: strip_def)
  then have "\<not> isspace (hd ?ys)"
    by (rule hd_dropWhile)
  moreover have "last (strip s) = hd ?ys"
    using ne by (simp add: strip_def last_rev)
  ultimately show ?thesis by simp
qed

lemma re_match_strip: "re_match_track_id (strip s) = is_track_identifier (strip s)"
proof (cases "length (strip s) = 23 \<and> strip s ! 22 = CHR 0x0A")
  case True
  then have ne: "strip s \<noteq> []" by auto
  from True have "last (strip s) = CHR 0x0A"
    using ne by (simp add: last_conv_nth)
  with strip_last_not_space [OF ne] isspace_newline show ?thesis
    by simp
next
  case False
  then show ?thesis
    by (auto simp: re_match_track_id_def is_track_identifier_def)
qed

lemma not_identifier_empty: "\<not> is_track_identifier (strip [])"
  by (simp add: is_track_identifier_def strip_def)

text \<open>
  C9.  Both validators of the track identifier trim the input and then decide by the
  trimmed string alone: when it is 22 base62 characters they return it, unchanged;
  otherwise they fail, the router's with \<open>InvalidTrackError\<close> (HTTP 400) and the one of
  the dependencies module with a \<open>ValueError\<close>.
\<close>

theorem validate_track_id_decides:
  "validate_track_id_param s =
     (if is_track_identifier (strip s) then Inr (strip s) else Inl InvalidTrackError)
   \<and> validate_track_id s =
     (if is_track_identifier (strip s) then Inr (strip s)
      else Inl (ValueError (if s = [] then ''Track ID required''
                            else ''Invalid track ID format'')))"
  using not_identifier_empty
  by (auto simp: validate_track_id_param_def validate_track_id_def Let_def re_match_strip)

theorem validate_track_id_decides_witness:
  "validate_track_id_param ''  4uLU6hMCjMI75M1A2tKUQC '' = Inr ''4uLU6hMCjMI75M1A2tKUQC''
   \<and> validate_track_id ''4uLU6hMCjMI75M1A2tKUQ!'' = Inl (ValueError ''Invalid track ID format'')"
  using validate_track_id_decides [of "''  4uLU6hMCjMI75M1A2tKUQC ''"]
    validate_track_id_decides [of "''4uLU6hMCjMI75M1A2tKUQ!''"]
  by (simp add: is_track_identifier_def strip_def isspace_def base62_def)


section \<open>Properties of the Upstream Client\<close>

lemma headers_absent:
  "map_of (map (\<lambda>kv. (f (fst kv), snd kv)) hs) k = None \<Longrightarrow>
     filter (\<lambda>kv. f (fst kv) = k) hs = []"
  by (induction hs) (auto split: if_splits)

lemma make_request_status:
  "make_request outcome = Inl x \<Longrightarrow> status_code x \<in> {401, 404, 500, 502}"
  by (cases outcome) (auto simp: SpotifyAPIError_default_def split: if_splits option.splits)

text \<open>
  C6, as the specification states it, at the input where it fails: an upstream 429 is
  raised as \<open>SpotifyAPIError\<close>, whose status code is 502, not as a rate-limit error with
  status 429; and a \<^verbatim>\<open>Retry-After\<close> header that is no number is kept as it is, not
  replaced by 60.
\<close>

theorem make_request_429_counterexample:
  "make_request (Response 429 [(''Retry-After'', ''soon'')] None)
     = Inl (SpotifyAPIError ''Rate limited by Spotify. Try again shortly.'')
   \<and> status_code (SpotifyAPIError ''Rate limited by Spotify. Try again shortly.'') = 502
   \<and> retry_after [(''Retry-After'', ''soon'')] = ''soon''"
  by (simp add: retry_after_def headers_get_def lower_char_def)

text \<open>
  C6, amended to what the code does: 204 is success without payload; 401 is
  \<open>SpotifyAuthError\<close> (status 401); 404 is \<open>NotFoundError\<close> (status 404); 429, every
  status from 500 on, every other status from 400 on, a timeout and any other network
  failure are all \<open>SpotifyAPIError\<close> (status 502) and differ in the static message
  only; the exception raised on 429 does not depend on the headers, and the value read
  from \<^verbatim>\<open>Retry-After\<close> is 60 when the header is absent.
\<close>

theorem make_request_classification:
  "make_request (Response 204 hs body) = Inr JNull
   \<and> make_request (Response 401 hs body) = Inl (SpotifyAuthError ''Token expired. Please re-authenticate.'')
   \<and> status_code (SpotifyAuthError ''Token expired. Please re-authenticate.'') = 401
   \<and> make_request (Response 404 hs body) = Inl (NotFoundError ''Track'')
   \<and> status_code (NotFoundError ''Track'') = 404
   \<and> make_request (Response 429 hs body) = Inl (SpotifyAPIError ''Rate limited by Spotify. Try again shortly.'')
   \<and> (500 \<le> status \<longrightarrow> make_request (Response status hs body) = Inl SpotifyAPIError_default)
   \<and> (400 \<le> status \<and> status < 500 \<and> status \<notin> {401, 404, 429} \<longrightarrow>
        make_request (Response status hs body) = Inl (SpotifyAPIError ''Request failed''))
   \<and> make_request TimeoutException = Inl (SpotifyAPIError ''Spotify is not responding. Try again.'')
   \<and> make_request RequestError = Inl SpotifyAPIError_default
   \<and> status_code (SpotifyAPIError d) = 502
   \<and> status_code SpotifyAPIError_default = 502
   \<and> (map_of (map (\<lambda>kv. (map lower_char (fst kv), snd kv)) hs) (map lower_char ''Retry-After'') = None
        \<longrightarrow> retry_after hs = ''60'')"
  using headers_absent [of "map lower_char" hs "map lower_char ''Retry-After''"]
  by (simp add: SpotifyAPIError_default_def retry_after_def headers_get_def)

theorem make_request_classification_witness:
  "make_request (Response 503 [] None) = Inl (SpotifyAPIError ''Spotify service temporarily unavailable'')
   \<and> make_request (Response 418 [] None) = Inl (SpotifyAPIError ''Request failed'')
   \<and> retry_after [(''Content-Type'', ''application/json'')] = ''60''"
  using make_request_classification [of "[]" None 503 "''x''"]
    make_request_classification [of "[]" None 418 "''x''"]
    make_request_classification [of "[(''Content-Type'', ''application/json'')]" None 418 "''x''"]
  by (simp add: SpotifyAPIError_default_def lower_char_def)


section \<open>Properties of the Analysis Transformer\<close>

lemma bind_exc_Inr: "bind_exc m f = Inr y \<longleftrightarrow> (\<exists>x. m = Inr x \<and> f x = Inr y)"
  by (cases m) (simp_all add: bind_exc_def)

lemma bind_exc_simps [simp]: "bind_exc (Inr x) f = f x" "bind_exc (Inl e) f = Inl e"
  by (simp_all add: bind_exc_def)

lemma float_limit_large: "1000000 < float_limit"
proof -
  have "(2::real) ^ 1024 - 2 ^ 970 = 2 ^ 970 * (2 ^ 54 - 1)"
    by (simp add: algebra_simps flip: power_add)
  moreover have "(1000000::real) < 2 ^ 54 - 1"
    by simp
  moreover have "(1::real) \<le> 2 ^ 970"
    by simp
  ultimately show ?thesis
    unfolding float_limit_def
    by (smt (verit, best) mult_le_cancel_right1)
qed

lemma in_float_range_small: "\<bar>r\<bar> \<le> 1000000 \<Longrightarrow> in_float_range r"
  using float_limit_large by (simp add: in_float_range_def)

lemma to_float_range: "in_float_range r \<Longrightarrow> to_float lax (JNum r) = Some r"
  by simp

lemma to_float_num: "to_float lax (JNum x) = Some y \<Longrightarrow> y = x \<and> in_float_range x"
  by (simp split: if_splits)

lemma comprehension_Inr:
  "comprehension p f xs = Inr ys \<Longrightarrow>
     map f (filter (\<lambda>x. p x = Inr True) xs) = map Inr ys \<and> length ys \<le> length xs"
proof (induction xs arbitrary: ys)
  case Nil
  then show ?case by simp
next
  case (Cons x xs)
  then show ?case
    by (auto split: sum.splits if_splits)
qed

lemma comprehension_always:
  "comprehension always f xs = Inr ys \<Longrightarrow> map f xs = map Inr ys"
  using comprehension_Inr [of always f xs ys] by (simp add: always_def)

lemma comprehension_total:
  "\<forall>x \<in> set xs. p x = Inr (q x) \<and> (q x \<longrightarrow> f x = Inr (g x)) \<Longrightarrow>
   comprehension p f xs = Inr (map g (filter q xs))"
  by (induction xs) auto

lemma comprehension_built:
  "comprehension p f xs = Inr ys \<Longrightarrow> x \<in> set xs \<Longrightarrow> p x = Inr True \<Longrightarrow> \<exists>y. f x = Inr y"
proof (induction xs arbitrary: ys)
  case Nil
  then show ?case by simp
next
  case (Cons a xs)
  then show ?case
    by (auto split: sum.splits if_splits)
qed

lemma map_Inr_nth:
  "map f xs = map Inr ys \<Longrightarrow> i < length ys \<Longrightarrow> f (xs ! i) = Inr (ys ! i)"
  by (metis length_map nth_map)

lemma AnalysisResponse_init_Inr:
  "AnalysisResponse_init lax tid d tp en bs sgs scs = Inr r \<Longrightarrow>
     beats r = bs \<and> segments r = sgs \<and> sections r = scs \<and> track_id r = tid"
  by (auto simp: AnalysisResponse_init_def split: option.splits)

lemma process_analysis_Inr:
  assumes "process_analysis lax tid analysis features = Inr r"
  shows "\<exists>raw_beats bs raw_segments capped ss raw_sections cs.
     py_get analysis ''beats'' (JArr []) = Inr raw_beats \<and> py_iter raw_beats = Inr bs \<and>
     comprehension beat_test (beat_of lax) bs = Inr (beats r) \<and>
     py_get analysis ''segments'' (JArr []) = Inr raw_segments \<and>
     py_slice 2000 raw_segments = Inr capped \<and> py_iter capped = Inr ss \<and>
     comprehension always (segment_of lax) ss = Inr (segments r) \<and>
     py_get analysis ''sections'' (JArr []) = Inr raw_sections \<and> py_iter raw_sections = Inr cs \<and>
     comprehension always (section_of lax) cs = Inr (sections r)"
  using assms unfolding process_analysis_def bind_exc_Inr
  by (auto dest!: AnalysisResponse_init_Inr)

lemma present_numD:
  "present_num kvs k P \<Longrightarrow> \<exists>r. map_of kvs k = Some (JNum r) \<and> in_float_range r \<and> P r"
  by (auto simp: present_num_def split: option.splits json.splits)

lemma optional_numD:
  "optional_num kvs k P \<Longrightarrow>
     map_of kvs k = None \<or> (\<exists>r. map_of kvs k = Some (JNum r) \<and> in_float_range r \<and> P r)"
  by (auto simp: optional_num_def split: option.splits json.splits)

lemma to_floats_nums: "list_all is_num vs \<Longrightarrow> to_floats lax vs = Some (map num_val vs)"
proof (induction vs)
  case Nil
  then show ?case by simp
next
  case (Cons v vs)
  then show ?case by (cases v) simp_all
qed

lemma to_floats_zeros: "to_floats lax (replicate n (JNum 0)) = Some (replicate n 0)"
  by (induction n) (simp_all add: in_float_range_small)

lemma to_floats_length: "to_floats lax vs = Some rs \<Longrightarrow> length rs = length vs"
  by (induction vs arbitrary: rs) (auto split: option.splits)

lemma optional_floats12D:
  assumes "optional_floats12 kvs k"
  shows "\<exists>v. py_get (JObj kvs) k twelve_zeros = Inr v \<and>
             to_float_list lax v = Some (floats_or_zeros kvs k) \<and>
             length (floats_or_zeros kvs k) = 12"
proof (cases "map_of kvs k")
  case None
  then show ?thesis
    by (simp add: twelve_zeros_def floats_or_zeros_def to_floats_zeros)
next
  case (Some v)
  with assms obtain vs where v: "v = JArr vs" and len: "length vs = 12" and nums: "list_all is_num vs"
    by (auto simp: optional_floats12_def split: json.splits)
  with Some show ?thesis
    by (simp add: floats_or_zeros_def to_floats_nums)
qed

lemma beat_test_wf: "wf_beat b \<Longrightarrow> beat_test b = Inr (spec_confident b)"
proof (cases b)
  case (JObj kvs)
  assume "wf_beat b"
  with JObj have "optional_num kvs ''confidence'' any_real"
    by (auto simp: optional_num_def any_real_def split: option.splits json.splits)
  from optional_numD [OF this] JObj show ?thesis
    by (auto simp: beat_test_def num_or_def)
qed simp_all

lemma beat_of_wf:
  assumes "wf_beat b" and "spec_confident b"
  shows "beat_of lax b = Inr (spec_beat b)"
proof (cases b)
  case (JObj kvs)
  from assms JObj obtain c where c: "map_of kvs ''confidence'' = Some (JNum c)" "c > 0.3"
      "in_float_range c"
    by (cases "map_of kvs ''confidence''") (auto simp: num_or_def optional_num_def split: json.splits)
  with assms JObj have "c \<le> 1" and s: "present_num kvs ''start'' (\<lambda>s. 0 \<le> s)"
      and d: "present_num kvs ''duration'' (\<lambda>d. 0 < d)"
    by (auto simp: optional_num_def)
  from present_numD [OF s] present_numD [OF d] c \<open>c \<le> 1\<close> JObj show ?thesis
    by (auto simp: beat_of_def BeatData_init_def num_or_def)
qed (use assms in simp_all)

lemma optional_num_get:
  assumes "optional_num kvs k P" and "P dflt" and "in_float_range dflt"
  shows "\<exists>r. py_get (JObj kvs) k (JNum dflt) = Inr (JNum r) \<and> r = num_or kvs k dflt \<and>
             in_float_range r \<and> P r"
  using optional_numD [OF assms(1)] assms(2,3) by (auto simp: num_or_def)

lemma segment_loudness_wf:
  assumes "optional_num kvs ''loudness_start'' any_real" and "optional_num kvs ''loudness'' any_real"
  shows "\<exists>l0. py_get (JObj kvs) ''loudness'' (JNum (- 60)) = Inr l0 \<and>
              py_get (JObj kvs) ''loudness_start'' l0 = Inr (JNum (spec_loudness kvs)) \<and>
              in_float_range (spec_loudness kvs)"
  using optional_numD [OF assms(1)] optional_numD [OF assms(2)]
  by (auto simp: spec_loudness_def in_float_range_small)

lemma segment_of_wf:
  assumes "wf_segment s"
  shows "segment_of lax s = Inr (spec_segment s)"
proof (cases s)
  case (JObj kvs)
  with assms have s: "present_num kvs ''start'' (\<lambda>s. 0 \<le> s)"
    and d: "present_num kvs ''duration'' (\<lambda>d. 0 < d)"
    and ls: "optional_num kvs ''loudness_start'' any_real"
    and l: "optional_num kvs ''loudness'' any_real"
    and p: "optional_floats12 kvs ''pitches''" and t: "optional_floats12 kvs ''timbre''"
    by simp_all
  from present_numD [OF s] obtain s' where
    s': "map_of kvs ''start'' = Some (JNum s')" "in_float_range s'" "0 \<le> s'"
    by blast
  from present_numD [OF d] obtain d' where
    d': "map_of kvs ''duration'' = Some (JNum d')" "in_float_range d'" "0 < d'"
    by blast
  from segment_loudness_wf [OF ls l] obtain l0 where
    l0: "py_get (JObj kvs) ''loudness'' (JNum (- 60)) = Inr l0"
        "py_get (JObj kvs) ''loudness_start'' l0 = Inr (JNum (spec_loudness kvs))"
        "in_float_range (spec_loudness kvs)"
    by blast
  from optional_floats12D [OF p, of lax] obtain pv where
    pv: "py_get (JObj kvs) ''pitches'' twelve_zeros = Inr pv"
        "to_float_list lax pv = Some (floats_or_zeros kvs ''pitches'')"
        "length (floats_or_zeros kvs ''pitches'') = 12"
    by blast
  from optional_floats12D [OF t, of lax] obtain tv where
    tv: "py_get (JObj kvs) ''timbre'' twelve_zeros = Inr tv"
        "to_float_list lax tv = Some (floats_or_zeros kvs ''timbre'')"
        "length (floats_or_zeros kvs ''timbre'') = 12"
    by blast
  have "segment_of lax (JObj kvs) =
        SegmentData_init lax (JNum s') (JNum d') (JNum (spec_loudness kvs)) pv tv"
    unfolding segment_of_def using s' d' l0 pv(1) tv(1) by simp
  also have "\<dots> = Inr (spec_segment (JObj kvs))"
    using s' d' l0(3) pv tv by (simp add: SegmentData_init_def num_or_def)
  finally show ?thesis using JObj by simp
qed (use assms in simp_all)

lemma to_int_num: "k = of_int \<lfloor>k\<rfloor> \<Longrightarrow> to_int lax (JNum k) = Some \<lfloor>k\<rfloor>"
  by (simp add: whole_def)

lemma section_of_wf:
  assumes "wf_section s"
  shows "section_of lax s = Inr (spec_section s)"
proof (cases s)
  case (JObj kvs)
  with assms have s: "present_num kvs ''start'' (\<lambda>s. 0 \<le> s)"
    and d: "present_num kvs ''duration'' (\<lambda>d. 0 < d)"
    and tp: "optional_num kvs ''tempo'' (\<lambda>t. 0 < t)"
    and k: "optional_num kvs ''key'' (\<lambda>k. k = of_int \<lfloor>k\<rfloor> \<and> - 1 \<le> k \<and> k \<le> 11)"
    and m: "optional_num kvs ''mode'' (\<lambda>m. m = 0 \<or> m = 1)"
    and l: "optional_num kvs ''loudness'' any_real"
    by simp_all
  from present_numD [OF s] obtain s' where
    s': "map_of kvs ''start'' = Some (JNum s')" "in_float_range s'" "0 \<le> s'"
    by blast
  from present_numD [OF d] obtain d' where
    d': "map_of kvs ''duration'' = Some (JNum d')" "in_float_range d'" "0 < d'"
    by blast
  from optional_num_get [OF tp, of 120] obtain tp' where
    tp': "py_get (JObj kvs) ''tempo'' (JNum 120) = Inr (JNum tp')" "tp' = num_or kvs ''tempo'' 120"
         "in_float_range tp'" "0 < tp'"
    by (auto simp: in_float_range_small)
  from optional_num_get [OF k, of "- 1"] obtain k' where
    k': "py_get (JObj kvs) ''key'' (JNum (- 1)) = Inr (JNum k')" "k' = num_or kvs ''key'' (- 1)"
        "k' = of_int \<lfloor>k'\<rfloor>" "- 1 \<le> k'" "k' \<le> 11"
    by (auto simp: in_float_range_small)
  from optional_num_get [OF m, of 0] obtain m' where
    m': "py_get (JObj kvs) ''mode'' (JNum 0) = Inr (JNum m')" "m' = num_or kvs ''mode'' 0"
        "m' = 0 \<or> m' = 1"
    by (auto simp: in_float_range_small)
  from optional_num_get [OF l, of "- 10"] obtain l' where
    l': "py_get (JObj kvs) ''loudness'' (JNum (- 10)) = Inr (JNum l')"
        "l' = num_or kvs ''loudness'' (- 10)" "in_float_range l'"
    by (auto simp: any_real_def in_float_range_small)
  have kb: "- 1 \<le> \<lfloor>k'\<rfloor> \<and> \<lfloor>k'\<rfloor> \<le> 11"
    using k'(4,5) by (simp add: le_floor_iff floor_le_iff)
  have mi: "m' = of_int \<lfloor>m'\<rfloor> \<and> 0 \<le> \<lfloor>m'\<rfloor> \<and> \<lfloor>m'\<rfloor> \<le> 1"
    using m'(3) by auto
  have "section_of lax (JObj kvs) =
        SectionData_init lax (JNum s') (JNum d') (JNum tp') (JNum k') (JNum m') (JNum l')"
    unfolding section_of_def using s' d' tp'(1) k'(1) m'(1) l'(1) by simp
  also have "\<dots> = Inr (spec_section (JObj kvs))"
    using s' d' tp' k' kb mi m'(2) l'(2,3) to_int_num [of k' lax] to_int_num [of m' lax]
    by (simp add: SectionData_init_def num_or_def del: to_int.simps)
  finally show ?thesis using JObj by simp
qed (use assms in simp_all)

lemma raw_list_get:
  "raw_list kvs k = Some xs \<Longrightarrow> py_get (JObj kvs) k (JArr []) = Inr (JArr xs)"
  by (auto simp: raw_list_def split: option.splits json.splits)

lemma raw_track_get:
  "raw_track kvs = Some t \<Longrightarrow> py_get (JObj kvs) ''track'' (JObj []) = Inr (JObj t)"
  by (auto simp: raw_track_def split: option.splits json.splits)

lemma any_num_get:
  assumes "optional_num kvs k any_real"
  shows "py_get (JObj kvs) k (JNum dflt) = Inr (JNum (num_or kvs k dflt))"
  using optional_numD [OF assms] by (auto simp: num_or_def)

lemma any_num_range:
  assumes "optional_num kvs k any_real" and "in_float_range dflt"
  shows "in_float_range (num_or kvs k dflt)"
  using optional_numD [OF assms(1)] assms(2) by (auto simp: num_or_def)

lemma process_analysis_wf:
  assumes a: "wf_analysis analysis" and f: "wf_features features"
  shows "process_analysis lax tid analysis features = Inr (spec_transform tid analysis features)"
proof -
  from a obtain akvs where A: "analysis = JObj akvs"
    by (cases analysis) simp_all
  from f obtain fkvs where F: "features = JObj fkvs"
    by (cases features) simp_all
  from a A obtain bs ss cs t where
    bs: "raw_list akvs ''beats'' = Some bs" "list_all wf_beat bs" and
    ss: "raw_list akvs ''segments'' = Some ss" "list_all wf_segment (take 2000 ss)" and
    cs: "raw_list akvs ''sections'' = Some cs" "list_all wf_section cs" and
    t: "raw_track akvs = Some t" "optional_num t ''duration'' any_real"
       "optional_num t ''tempo'' any_real"
    by (auto split: option.splits)
  from f F have ft: "optional_num fkvs ''tempo'' any_real"
    and fe: "optional_num fkvs ''energy'' any_real"
    by simp_all
  have c1: "comprehension beat_test (beat_of lax) bs = Inr (map spec_beat (filter spec_confident bs))"
    using bs(2) by (intro comprehension_total) (auto simp: list_all_iff beat_test_wf beat_of_wf)
  have c2: "comprehension always (segment_of lax) (take 2000 ss)
              = Inr (map spec_segment (filter (\<lambda>x. True) (take 2000 ss)))"
    using ss(2) by (intro comprehension_total) (auto simp: list_all_iff always_def segment_of_wf)
  have c3: "comprehension always (section_of lax) cs
              = Inr (map spec_section (filter (\<lambda>x. True) cs))"
    using cs(2) by (intro comprehension_total) (auto simp: list_all_iff always_def section_of_wf)
  have r1: "in_float_range (num_or t ''duration'' 0)"
    by (rule any_num_range [OF t(2)]) (simp add: in_float_range_small)
  have r2: "in_float_range (num_or t ''tempo'' 120)"
    by (rule any_num_range [OF t(3)]) (simp add: in_float_range_small)
  have r3: "in_float_range (num_or fkvs ''tempo'' (num_or t ''tempo'' 120))"
    by (rule any_num_range [OF ft r2])
  have r4: "in_float_range (num_or fkvs ''energy'' (1 / 2))"
    by (rule any_num_range [OF fe]) (simp add: in_float_range_small)
  show ?thesis
    unfolding A F process_analysis_def
    by (simp add: raw_list_get [OF bs(1)] raw_list_get [OF ss(1)] raw_list_get [OF cs(1)]
        raw_track_get [OF t(1)] c1 c2 c3 any_num_get [OF t(2)] any_num_get [OF t(3)]
        any_num_get [OF ft] any_num_get [OF fe] AnalysisResponse_init_def bs(1) ss(1) cs(1) t(1)
        r1 r2 r3 r4 del: py_get.simps)
qed

lemma wf_example: "wf_analysis example_analysis \<and> wf_features (JObj [])"
  by (simp add: example_analysis_def example_beat_def example_segment_def example_section_def
      raw_list_def raw_track_def optional_num_def present_num_def optional_floats12_def
      any_real_def list_all_iff in_float_range_small)

lemma process_example:
  "process_analysis lax tid example_analysis (JObj [])
     = Inr (spec_transform tid example_analysis (JObj []))"
  using wf_example by (intro process_analysis_wf) simp_all

lemma py_slice_iter_length:
  "py_slice n v = Inr capped \<Longrightarrow> py_iter capped = Inr ss \<Longrightarrow> length ss \<le> n"
  by (cases v) auto

lemma map_Inr_length: "map f xs = map Inr ys \<Longrightarrow> length ys = length xs"
  by (metis length_map)

lemma py_index_Inr: "py_index v k = Inr w \<Longrightarrow> \<exists>kvs. v = JObj kvs \<and> map_of kvs k = Some w"
  by (cases v) (auto split: option.splits)

lemma SegmentData_init_Inr:
  "SegmentData_init lax s d l p t = Inr sg \<Longrightarrow>
     to_float lax s = Some (seg_start sg) \<and> to_float lax d = Some (seg_duration sg) \<and>
     to_float lax l = Some (seg_loudness sg) \<and>
     to_float_list lax p = Some (seg_pitches sg) \<and> to_float_list lax t = Some (seg_timbre sg) \<and>
     length (seg_pitches sg) = 12 \<and> length (seg_timbre sg) = 12"
  by (auto simp: SegmentData_init_def split: option.splits if_splits)

lemma segment_of_kept:
  assumes "segment_of lax s = Inr sg"
  shows "kept_segment lax s sg"
proof -
  from assms obtain st d l0 l p t where
    st: "py_index s ''start'' = Inr st" and d: "py_index s ''duration'' = Inr d" and
    l0: "py_get s ''loudness'' (JNum (- 60)) = Inr l0" and
    l: "py_get s ''loudness_start'' l0 = Inr l" and
    p: "py_get s ''pitches'' twelve_zeros = Inr p" and
    t: "py_get s ''timbre'' twelve_zeros = Inr t" and
    init: "SegmentData_init lax st d l p t = Inr sg"
    unfolding segment_of_def bind_exc_Inr by blast
  from py_index_Inr [OF st] obtain kvs where
    s: "s = JObj kvs" and st': "map_of kvs ''start'' = Some st"
    by blast
  from py_index_Inr [OF d] s have d': "map_of kvs ''duration'' = Some d"
    by simp
  from l0 l s have l': "l = (case map_of kvs ''loudness_start'' of
           Some v \<Rightarrow> v
         | None \<Rightarrow> (case map_of kvs ''loudness'' of Some v \<Rightarrow> v | None \<Rightarrow> JNum (- 60)))"
    by auto
  from p s have p': "p = (case map_of kvs ''pitches'' of Some v \<Rightarrow> v | None \<Rightarrow> twelve_zeros)"
    by auto
  from t s have t': "t = (case map_of kvs ''timbre'' of Some v \<Rightarrow> v | None \<Rightarrow> twelve_zeros)"
    by auto
  from SegmentData_init_Inr [OF init] show ?thesis
    unfolding s l' p' t' by (simp add: field_float_def st' d')
qed

lemma kept_segment_needs:
  assumes "kept_segment lax s sg" and "length (seg_pitches sg) = 12" and "length (seg_timbre sg) = 12"
  shows "has_start_duration s \<and> twelve_if_list ''pitches'' s \<and> twelve_if_list ''timbre'' s"
proof (cases s)
  case (JObj kvs)
  with assms(1) have
    k: "field_float lax (map_of kvs ''start'') = Some (seg_start sg)"
       "field_float lax (map_of kvs ''duration'') = Some (seg_duration sg)"
       "to_float_list lax (case map_of kvs ''pitches'' of Some v \<Rightarrow> v | None \<Rightarrow> twelve_zeros)
          = Some (seg_pitches sg)"
       "to_float_list lax (case map_of kvs ''timbre'' of Some v \<Rightarrow> v | None \<Rightarrow> twelve_zeros)
          = Some (seg_timbre sg)"
    by simp_all
  from k(1,2) have sd: "has_start_duration (JObj kvs)"
    by (auto simp: field_float_def split: option.splits)
  have p: "twelve_if_list ''pitches'' (JObj kvs)"
    using k(3) assms(2) to_floats_length [of lax _ "seg_pitches sg"]
    by (auto split: option.splits json.splits)
  have t: "twelve_if_list ''timbre'' (JObj kvs)"
    using k(4) assms(3) to_floats_length [of lax _ "seg_timbre sg"]
    by (auto split: option.splits json.splits)
  from sd p t JObj show ?thesis by simp
qed (use assms in simp_all)

lemma segment_of_needs:
  assumes "segment_of lax s = Inr sg"
  shows "has_start_duration s \<and> twelve_if_list ''pitches'' s \<and> twelve_if_list ''timbre'' s"
proof -
  from assms obtain st d l p t where "SegmentData_init lax st d l p t = Inr sg"
    unfolding segment_of_def bind_exc_Inr by blast
  from SegmentData_init_Inr [OF this] have "length (seg_pitches sg) = 12"
    and "length (seg_timbre sg) = 12"
    by simp_all
  with segment_of_kept [OF assms] show ?thesis
    by (rule kept_segment_needs)
qed

lemma beat_of_needs: "beat_of lax b = Inr y \<Longrightarrow> has_start_duration b"
  unfolding beat_of_def bind_exc_Inr by (auto dest!: py_index_Inr)

lemma section_of_needs: "section_of lax c = Inr y \<Longrightarrow> has_start_duration c"
  unfolding section_of_def bind_exc_Inr by (auto dest!: py_index_Inr)

lemma take_numbered:
  "take 2000 (map numbered_segment [0..<2500]) = map numbered_segment [0..<2000]"
  by (simp add: take_map)

lemma wf_numbered_segment: "i < 2500 \<Longrightarrow> wf_segment (numbered_segment i)"
  by (simp add: numbered_segment_def present_num_def optional_num_def optional_floats12_def
      any_real_def in_float_range_small)

lemma wf_numbered: "wf_analysis numbered_analysis"
  by (simp add: numbered_analysis_def raw_list_def raw_track_def optional_num_def take_numbered
      list_all_iff wf_numbered_segment)

lemma process_numbered:
  "process_analysis lax tid numbered_analysis (JObj [])
     = Inr (spec_transform tid numbered_analysis (JObj []))"
  using wf_numbered by (intro process_analysis_wf) (simp_all add: optional_num_def)

lemma segments_numbered:
  "segments (spec_transform tid numbered_analysis (JObj []))
     = map (\<lambda>i. \<lparr>seg_start = real i, seg_duration = 0.25, seg_loudness = - real i,
                  seg_pitches = replicate 12 0, seg_timbre = replicate 12 0\<rparr>) [0..<2000]"
  by (simp add: numbered_analysis_def raw_list_def raw_track_def take_numbered
      numbered_segment_def num_or_def spec_loudness_def floats_or_zeros_def)

text \<open>
  C4, as the specification states it, at an input where it fails: the raw segment list
  has one entry, an object without \<^verbatim>\<open>start\<close>, and the transformer raises \<^verbatim>\<open>KeyError\<close>: there
  is no output whose segments could be counted.
\<close>

theorem segment_cap_counterexample:
  "py_get (JObj [(''segments'', JArr [JObj []])]) ''segments'' (JArr []) = Inr (JArr [JObj []])
   \<and> process_analysis no_coercion example_track_id (JObj [(''segments'', JArr [JObj []])]) (JObj [])
       = Inl (KeyError ''start'')"
  by (simp add: process_analysis_def always_def segment_of_def)

text \<open>
  C4, amended to what the code does.  Whenever the transformer returns a result, the
  result has at most 2000 segments; and when the payload's \<^verbatim>\<open>segments\<close> entry is a list
  (or absent, which is the empty list), the number of output segments is the minimum of
  the list's length and 2000, the \<open>i\<close>-th output segment is the one built from the
  \<open>i\<close>-th raw record, and it is that record kept: its start, duration, loudness,
  pitches and timbre are the validated values of the record's own fields (or their
  defaults).
\<close>

theorem segment_cap:
  assumes "process_analysis lax tid analysis features = Inr r"
  shows "length (segments r) \<le> 2000 \<and>
         (\<forall>raw_segments. py_get analysis ''segments'' (JArr []) = Inr (JArr raw_segments) \<longrightarrow>
            length (segments r) = min (length raw_segments) 2000 \<and>
            map Inr (segments r) = map (segment_of lax) (take 2000 raw_segments) \<and>
            (\<forall>i < length (segments r). kept_segment lax (raw_segments ! i) (segments r ! i)))"
proof -
  from process_analysis_Inr [OF assms] obtain raw capped ss where
    raw: "py_get analysis ''segments'' (JArr []) = Inr raw" and
    capped: "py_slice 2000 raw = Inr capped" and ss: "py_iter capped = Inr ss" and
    comp: "comprehension always (segment_of lax) ss = Inr (segments r)"
    by blast
  from comprehension_always [OF comp] have m: "map (segment_of lax) ss = map Inr (segments r)" .
  then have len: "length (segments r) = length ss"
    by (rule map_Inr_length)
  have "length (segments r) \<le> 2000"
    using py_slice_iter_length [OF capped ss] len by simp
  moreover have "length (segments r) = min (length xs) 2000 \<and>
        map Inr (segments r) = map (segment_of lax) (take 2000 xs) \<and>
        (\<forall>i < length (segments r). kept_segment lax (xs ! i) (segments r ! i))"
    if "py_get analysis ''segments'' (JArr []) = Inr (JArr xs)" for xs
  proof -
    from that raw have "raw = JArr xs" by simp
    with capped ss have ss': "ss = take 2000 xs" by auto
    have "kept_segment lax (xs ! i) (segments r ! i)" if i: "i < length (segments r)" for i
    proof -
      from map_Inr_nth [OF m i] have "segment_of lax (ss ! i) = Inr (segments r ! i)" .
      moreover from i len ss' have "ss ! i = xs ! i" by simp
      ultimately show ?thesis by (simp add: segment_of_kept)
    qed
    with m len ss' show ?thesis by (simp add: min.commute)
  qed
  ultimately show ?thesis by blast
qed

text \<open>
  Of 2500 segments that all differ the first 2000 are kept, each with its own start and
  loudness: the last one kept is the raw record of index 1999.
\<close>

theorem segment_cap_witness:
  "process_analysis no_coercion example_track_id numbered_analysis (JObj [])
     = Inr (spec_transform example_track_id numbered_analysis (JObj []))
   \<and> length (segments (spec_transform example_track_id numbered_analysis (JObj []))) = 2000
   \<and> kept_segment no_coercion (numbered_segment 1999)
       (segments (spec_transform example_track_id numbered_analysis (JObj [])) ! 1999)
   \<and> segments (spec_transform example_track_id numbered_analysis (JObj [])) ! 1999
       = \<lparr>seg_start = 1999, seg_duration = 0.25, seg_loudness = - 1999,
          seg_pitches = replicate 12 0, seg_timbre = replicate 12 0\<rparr>
   \<and> segments (spec_transform example_track_id numbered_analysis (JObj [])) ! 7
       = \<lparr>seg_start = 7, seg_duration = 0.25, seg_loudness = - 7,
          seg_pitches = replicate 12 0, seg_timbre = replicate 12 0\<rparr>"
proof -
  let ?r = "spec_transform example_track_id numbered_analysis (JObj [])"
  have h: "process_analysis no_coercion example_track_id numbered_analysis (JObj []) = Inr ?r"
    by (rule process_numbered)
  have g: "py_get numbered_analysis ''segments'' (JArr [])
     = Inr (JArr (map numbered_segment [0..<2500]))"
    by (simp add: numbered_analysis_def)
  from segment_cap [OF h] g have len: "length (segments ?r) = 2000"
    by simp
  from segment_cap [OF h] g have
    kept: "\<forall>i < length (segments ?r).
             kept_segment no_coercion (map numbered_segment [0..<2500] ! i) (segments ?r ! i)"
    by blast
  have n: "map numbered_segment [0..<2500] ! 1999 = numbered_segment 1999"
    by simp
  from kept [rule_format, of 1999] len n
  have k: "kept_segment no_coercion (numbered_segment 1999) (segments ?r ! 1999)"
    by simp
  have v: "segments ?r ! 1999
       = \<lparr>seg_start = 1999, seg_duration = 0.25, seg_loudness = - 1999,
          seg_pitches = replicate 12 0, seg_timbre = replicate 12 0\<rparr>"
    "segments ?r ! 7
       = \<lparr>seg_start = 7, seg_duration = 0.25, seg_loudness = - 7,
          seg_pitches = replicate 12 0, seg_timbre = replicate 12 0\<rparr>"
    by (simp_all add: segments_numbered)
  from h len k v show ?thesis by simp
qed

lemma beat_test_True:
  assumes "beat_test b = Inr True"
  shows "\<exists>kvs c. b = JObj kvs \<and> map_of kvs ''confidence'' = Some c \<and> py_gt c 0.3 = Inr True"
proof (cases b)
  case (JObj kvs)
  with assms show ?thesis
    by (cases "map_of kvs ''confidence''") (simp_all add: beat_test_def)
qed (use assms in \<open>simp_all add: beat_test_def\<close>)

text \<open>
  C5.  Whenever the transformer returns a result on a payload whose \<^verbatim>\<open>beats\<close> entry is a
  list, there are no more output beats than raw beats, the output beats are the beats
  built from the raw records that pass the confidence test, in the order of the raw
  list, and each raw record that passes the test is an object whose \<^verbatim>\<open>confidence\<close> is
  present and compares above 0.3.
\<close>

theorem beats_filter:
  assumes "process_analysis lax tid analysis features = Inr r"
      and "py_get analysis ''beats'' (JArr []) = Inr (JArr raw_beats)"
  shows "length (beats r) \<le> length raw_beats \<and>
         map Inr (beats r) = map (beat_of lax) (filter (\<lambda>b. beat_test b = Inr True) raw_beats) \<and>
         (\<forall>b \<in> set (filter (\<lambda>b. beat_test b = Inr True) raw_beats).
            \<exists>kvs c. b = JObj kvs \<and> map_of kvs ''confidence'' = Some c \<and> py_gt c 0.3 = Inr True)"
proof -
  from process_analysis_Inr [OF assms(1)] obtain raw bs where
    raw: "py_get analysis ''beats'' (JArr []) = Inr raw" and bs: "py_iter raw = Inr bs" and
    comp: "comprehension beat_test (beat_of lax) bs = Inr (beats r)"
    by blast
  from raw assms(2) bs have "bs = raw_beats" by auto
  with comprehension_Inr [OF comp] beat_test_True show ?thesis
    by auto
qed

text \<open>The scenario's beats of confidence 0.1, 0.5 and 0.9 give the last two.\<close>

theorem beats_filter_witness:
  "process_analysis no_coercion example_track_id example_analysis (JObj [])
     = Inr (spec_transform example_track_id example_analysis (JObj []))
   \<and> py_get example_analysis ''beats'' (JArr [])
     = Inr (JArr [example_beat 0.1, example_beat 0.5, example_beat 0.9])
   \<and> beats (spec_transform example_track_id example_analysis (JObj []))
     = [\<lparr>beat_start = 1, beat_duration = 0.5, beat_confidence = 0.5\<rparr>,
        \<lparr>beat_start = 1, beat_duration = 0.5, beat_confidence = 0.9\<rparr>]
   \<and> map Inr (beats (spec_transform example_track_id example_analysis (JObj [])))
     = map (beat_of no_coercion) [example_beat 0.5, example_beat 0.9]"
proof -
  have h: "process_analysis no_coercion example_track_id example_analysis (JObj [])
     = Inr (spec_transform example_track_id example_analysis (JObj []))"
    by (rule process_example)
  have g: "py_get example_analysis ''beats'' (JArr [])
     = Inr (JArr [example_beat 0.1, example_beat 0.5, example_beat 0.9])"
    by (simp add: example_analysis_def)
  have t: "filter (\<lambda>b. beat_test b = Inr True) [example_beat 0.1, example_beat 0.5, example_beat 0.9]
         = [example_beat 0.5, example_beat 0.9]"
    by (simp add: beat_test_def example_beat_def)
  have b: "beats (spec_transform example_track_id example_analysis (JObj []))
     = [\<lparr>beat_start = 1, beat_duration = 0.5, beat_confidence = 0.5\<rparr>,
        \<lparr>beat_start = 1, beat_duration = 0.5, beat_confidence = 0.9\<rparr>]"
    by (simp add: example_analysis_def example_beat_def raw_list_def raw_track_def num_or_def)
  from beats_filter [OF h g] h g t b show ?thesis
    by simp
qed

text \<open>
  C1, as the specification states it, at two inputs where it fails: a beat of confidence
  0.5 without \<^verbatim>\<open>start\<close> raises \<^verbatim>\<open>KeyError\<close>, and a segment whose \<^verbatim>\<open>pitches\<close> has one element
  fails validation instead of getting twelve zeros.
\<close>

theorem process_analysis_raises_counterexample:
  "process_analysis no_coercion example_track_id
     (JObj [(''beats'', JArr [JObj [(''confidence'', JNum 0.5)]])]) (JObj [])
     = Inl (KeyError ''start'')
   \<and> process_analysis no_coercion example_track_id
     (JObj [(''segments'', JArr [JObj [(''start'', JNum 0), (''duration'', JNum 1),
                                      (''pitches'', JArr [JNum 0.5])]])]) (JObj [])
     = Inl ValidationError"
  by (simp add: process_analysis_def beat_test_def beat_of_def always_def segment_of_def
      SegmentData_init_def twelve_zeros_def to_floats_zeros)

lemma floor_minus_one: "\<lfloor>- 1 :: real\<rfloor> = - 1"
  by (rule floor_unique) simp_all

lemma process_analysis_needs:
  assumes "process_analysis lax tid analysis features = Inr r"
  shows "(\<forall>bs. py_get analysis ''beats'' (JArr []) = Inr (JArr bs) \<longrightarrow>
            (\<forall>b \<in> set bs. beat_test b = Inr True \<longrightarrow> has_start_duration b))
       \<and> (\<forall>ss. py_get analysis ''segments'' (JArr []) = Inr (JArr ss) \<longrightarrow>
            (\<forall>s \<in> set (take 2000 ss). has_start_duration s \<and>
               twelve_if_list ''pitches'' s \<and> twelve_if_list ''timbre'' s))
       \<and> (\<forall>cs. py_get analysis ''sections'' (JArr []) = Inr (JArr cs) \<longrightarrow>
            (\<forall>c \<in> set cs. has_start_duration c))"
proof -
  from process_analysis_Inr [OF assms] obtain raw_beats bs raw_segments capped ss raw_sections cs
    where
      rb: "py_get analysis ''beats'' (JArr []) = Inr raw_beats" "py_iter raw_beats = Inr bs" and
      cb: "comprehension beat_test (beat_of lax) bs = Inr (beats r)" and
      rs: "py_get analysis ''segments'' (JArr []) = Inr raw_segments"
          "py_slice 2000 raw_segments = Inr capped" "py_iter capped = Inr ss" and
      cs: "comprehension always (segment_of lax) ss = Inr (segments r)" and
      rc: "py_get analysis ''sections'' (JArr []) = Inr raw_sections" "py_iter raw_sections = Inr cs"
      and cc: "comprehension always (section_of lax) cs = Inr (sections r)"
    by blast
  have b: "has_start_duration b"
    if "py_get analysis ''beats'' (JArr []) = Inr (JArr xs)" "b \<in> set xs" "beat_test b = Inr True"
    for xs b
  proof -
    from that(1) rb have "bs = xs" by auto
    with comprehension_built [OF cb, of b] that(2,3) show ?thesis
      by (auto dest: beat_of_needs)
  qed
  have s: "has_start_duration s \<and> twelve_if_list ''pitches'' s \<and> twelve_if_list ''timbre'' s"
    if "py_get analysis ''segments'' (JArr []) = Inr (JArr xs)" "s \<in> set (take 2000 xs)"
    for xs s
  proof -
    from that(1) rs have "ss = take 2000 xs" by auto
    with comprehension_built [OF cs, of s] that(2) obtain y where "segment_of lax s = Inr y"
      by (auto simp: always_def)
    then show ?thesis by (rule segment_of_needs)
  qed
  have c: "has_start_duration c"
    if "py_get analysis ''sections'' (JArr []) = Inr (JArr xs)" "c \<in> set xs"
    for xs c
  proof -
    from that(1) rc have "cs = xs" by auto
    with comprehension_built [OF cc, of c] that(2) show ?thesis
      by (auto simp: always_def dest: section_of_needs)
  qed
  from b s c show ?thesis by blast
qed

text \<open>
  C1, amended to what the code does.  On a payload in which analysis and features are
  objects, the beats, segments and sections are lists of objects, every beat that passes
  the filter, each of the first 2000 segments and every section carries a numeric
  \<^verbatim>\<open>start\<close> and \<^verbatim>\<open>duration\<close>, and every field that is present holds a value of its type and
  range (a number being one that converts to a double), the transformer does not raise
  and returns the specification's result: segment loudness is \<^verbatim>\<open>loudness_start\<close>, else
  \<^verbatim>\<open>loudness\<close>, else -60; absent \<^verbatim>\<open>pitches\<close> and \<^verbatim>\<open>timbre\<close> are twelve zeros; an absent section
  tempo is 120, key -1, mode 0, loudness -10.  \<^verbatim>\<open>start\<close> and \<^verbatim>\<open>duration\<close> have no default,
  and a list under \<^verbatim>\<open>pitches\<close> or \<^verbatim>\<open>timbre\<close> is not padded: whenever the transformer returns
  a result, every beat that passes the filter, each of the first 2000 segments and every
  section has both keys, and every such list in the first 2000 segments has twelve
  elements; on any other payload it raises.
\<close>

theorem process_analysis_defaults:
  "(wf_analysis analysis \<and> wf_features features \<longrightarrow>
      process_analysis lax tid analysis features = Inr (spec_transform tid analysis features))
    \<and> (map_of s ''loudness_start'' = Some (JNum l) \<longrightarrow> seg_loudness (spec_segment (JObj s)) = l)
    \<and> (map_of s ''loudness_start'' = None \<and> map_of s ''loudness'' = Some (JNum l) \<longrightarrow>
         seg_loudness (spec_segment (JObj s)) = l)
    \<and> (map_of s ''loudness_start'' = None \<and> map_of s ''loudness'' = None \<longrightarrow>
         seg_loudness (spec_segment (JObj s)) = - 60)
    \<and> (map_of s ''pitches'' = None \<longrightarrow> seg_pitches (spec_segment (JObj s)) = replicate 12 0)
    \<and> (map_of s ''timbre'' = None \<longrightarrow> seg_timbre (spec_segment (JObj s)) = replicate 12 0)
    \<and> (map_of c ''tempo'' = None \<longrightarrow> sec_tempo (spec_section (JObj c)) = 120)
    \<and> (map_of c ''key'' = None \<longrightarrow> sec_key (spec_section (JObj c)) = - 1)
    \<and> (map_of c ''mode'' = None \<longrightarrow> sec_mode (spec_section (JObj c)) = 0)
    \<and> (map_of c ''loudness'' = None \<longrightarrow> sec_loudness (spec_section (JObj c)) = - 10)
    \<and> (process_analysis lax tid analysis features = Inr r \<longrightarrow>
         (\<forall>bs. py_get analysis ''beats'' (JArr []) = Inr (JArr bs) \<longrightarrow>
            (\<forall>b \<in> set bs. beat_test b = Inr True \<longrightarrow> has_start_duration b))
       \<and> (\<forall>ss. py_get analysis ''segments'' (JArr []) = Inr (JArr ss) \<longrightarrow>
            (\<forall>s \<in> set (take 2000 ss). has_start_duration s \<and>
               twelve_if_list ''pitches'' s \<and> twelve_if_list ''timbre'' s))
       \<and> (\<forall>cs. py_get analysis ''sections'' (JArr []) = Inr (JArr cs) \<longrightarrow>
            (\<forall>c \<in> set cs. has_start_duration c)))"
proof -
  have d: "(map_of s ''loudness_start'' = Some (JNum l) \<longrightarrow> seg_loudness (spec_segment (JObj s)) = l)
    \<and> (map_of s ''loudness_start'' = None \<and> map_of s ''loudness'' = Some (JNum l) \<longrightarrow>
         seg_loudness (spec_segment (JObj s)) = l)
    \<and> (map_of s ''loudness_start'' = None \<and> map_of s ''loudness'' = None \<longrightarrow>
         seg_loudness (spec_segment (JObj s)) = - 60)
    \<and> (map_of s ''pitches'' = None \<longrightarrow> seg_pitches (spec_segment (JObj s)) = replicate 12 0)
    \<and> (map_of s ''timbre'' = None \<longrightarrow> seg_timbre (spec_segment (JObj s)) = replicate 12 0)
    \<and> (map_of c ''tempo'' = None \<longrightarrow> sec_tempo (spec_section (JObj c)) = 120)
    \<and> (map_of c ''key'' = None \<longrightarrow> sec_key (spec_section (JObj c)) = - 1)
    \<and> (map_of c ''mode'' = None \<longrightarrow> sec_mode (spec_section (JObj c)) = 0)
    \<and> (map_of c ''loudness'' = None \<longrightarrow> sec_loudness (spec_section (JObj c)) = - 10)"
    by (simp add: spec_loudness_def floats_or_zeros_def num_or_def floor_minus_one)
  from d process_analysis_wf [of analysis features lax tid]
    process_analysis_needs [of lax tid analysis features r]
  show ?thesis by blast
qed

text \<open>
  On the scenario's payload every default is taken, and its records have the keys a
  result needs.
\<close>

theorem process_analysis_defaults_witness:
  "wf_analysis example_analysis \<and> wf_features (JObj [])
   \<and> process_analysis no_coercion example_track_id example_analysis (JObj [])
     = Inr (spec_transform example_track_id example_analysis (JObj []))
   \<and> sections (spec_transform example_track_id example_analysis (JObj []))
     = [\<lparr>sec_start = 0, sec_duration = 30, sec_tempo = 120, sec_key = - 1, sec_mode = 0,
         sec_loudness = - 10\<rparr>]
   \<and> seg_loudness (spec_segment example_segment) = - 60
   \<and> seg_pitches (spec_segment example_segment) = replicate 12 0
   \<and> tempo (spec_transform example_track_id example_analysis (JObj [])) = 120
   \<and> energy (spec_transform example_track_id example_analysis (JObj [])) = 0.5
   \<and> has_start_duration example_section"
proof -
  let ?r = "spec_transform example_track_id example_analysis (JObj [])"
  note inst = process_analysis_defaults [of example_analysis "JObj []" no_coercion example_track_id
      "[(''start'', JNum 0), (''duration'', JNum 0.25)]" 0 "[]" ?r]
  have w: "wf_analysis example_analysis" and f: "wf_features (JObj [])"
    using wf_example by simp_all
  from inst w f have h: "process_analysis no_coercion example_track_id example_analysis (JObj []) = Inr ?r"
    by blast
  have g: "py_get example_analysis ''sections'' (JArr []) = Inr (JArr [example_section])"
    by (simp add: example_analysis_def)
  from inst h g have n: "has_start_duration example_section"
    by simp
  have s: "sections ?r
     = [\<lparr>sec_start = 0, sec_duration = 30, sec_tempo = 120, sec_key = - 1, sec_mode = 0,
         sec_loudness = - 10\<rparr>]"
    by (simp add: example_analysis_def example_section_def raw_list_def raw_track_def num_or_def
        floor_minus_one)
  have t: "tempo ?r = 120 \<and> energy ?r = 0.5"
    by (simp add: example_analysis_def raw_list_def raw_track_def num_or_def)
  from inst have "seg_loudness (spec_segment example_segment) = - 60"
    and "seg_pitches (spec_segment example_segment) = replicate 12 0"
    by (simp_all add: example_segment_def)
  with w f h n s t show ?thesis by simp
qed


section \<open>Properties of the Cache Store\<close>

lemma find_upsert:
  "find (\<lambda>d. doc_track_id d = tid) (upsert docs tid a now)
     = Some ((case find (\<lambda>d. doc_track_id d = tid) docs of
                None \<Rightarrow> \<lparr>doc_track_id = tid, doc_analysis = a, cached_at = now\<rparr>
              | Some d \<Rightarrow> d)\<lparr>doc_track_id := tid, doc_analysis := a, cached_at := now\<rparr>)"
  by (induction docs) auto

lemma find_upsert_fields:
  "\<exists>d. find (\<lambda>d. doc_track_id d = tid) (upsert docs tid a now) = Some d \<and>
       doc_analysis d = a \<and> cached_at d = now"
  by (simp add: find_upsert)

lemma find_filter:
  "find P xs = Some d \<Longrightarrow> Q d \<Longrightarrow> find P (filter Q xs) = Some d"
  by (induction xs) (auto split: if_splits)

lemma length_upsert:
  "find (\<lambda>d. doc_track_id d = tid) docs \<noteq> None \<Longrightarrow> length (upsert docs tid a now) = length docs"
  by (induction docs) auto

lemma cache_analysis_True:
  "cache_analysis w now db tid v = (Inr True, db') \<Longrightarrow>
     \<exists>docs. db = Some docs \<and> w = None \<and> db' = Some (upsert docs tid v now)"
  by (auto simp: cache_analysis_def get_db_def update_one_def split: option.splits sum.splits)

lemma get_after_put:
  "get_cached_analysis None (Some (upsert docs tid v now)) tid = Inr v"
  using find_upsert_fields [of tid docs v now]
  by (auto simp: get_cached_analysis_def get_db_def find_one_def)

lemma get_after_put_ttl:
  assumes "now' \<le> now + expireAfterSeconds"
  shows "get_cached_analysis None (Some (ttl_monitor now' (upsert docs tid v now))) tid = Inr v"
proof -
  from find_upsert_fields [of tid docs v now] obtain d where
    d: "find (\<lambda>d. doc_track_id d = tid) (upsert docs tid v now) = Some d"
       "doc_analysis d = v" "cached_at d = now"
    by blast
  from assms d(3) have "\<not> expired now' d"
    by (simp add: expired_def)
  from find_filter [OF d(1), of "\<lambda>d. \<not> expired now' d", OF this] d(2) show ?thesis
    by (simp add: get_cached_analysis_def get_db_def find_one_def ttl_monitor_def)
qed

text \<open>
  C8.  After a put that reports success, a get of the same track returns the value put,
  and still does after a pass of the expiry index at any time up to the index's expiry
  after the write; and after a second successful put for the same track the get returns
  the second value, the collection having gained no document.
\<close>

theorem cache_roundtrip_upsert:
  assumes "cache_analysis w now db tid v = (Inr True, db')"
  shows "get_cached_analysis None db' tid = Inr v
     \<and> (\<forall>now' docs'. db' = Some docs' \<and> now' \<le> now + expireAfterSeconds \<longrightarrow>
          get_cached_analysis None (Some (ttl_monitor now' docs')) tid = Inr v)
     \<and> (\<forall>w2 now2 v2 db2. cache_analysis w2 now2 db' tid v2 = (Inr True, db2) \<longrightarrow>
          get_cached_analysis None db2 tid = Inr v2 \<and>
          map_option length db2 = map_option length db')"
proof -
  from cache_analysis_True [OF assms] obtain docs where
    db: "db = Some docs" "w = None" "db' = Some (upsert docs tid v now)"
    by blast
  have present: "find (\<lambda>d. doc_track_id d = tid) (upsert docs tid v now) \<noteq> None"
    using find_upsert_fields [of tid docs v now] by auto
  have "get_cached_analysis None db2 tid = Inr v2 \<and> map_option length db2 = map_option length db'"
    if "cache_analysis w2 now2 db' tid v2 = (Inr True, db2)" for w2 now2 v2 db2
  proof -
    from cache_analysis_True [OF that] db(3)
    have "db2 = Some (upsert (upsert docs tid v now) tid v2 now2)" by auto
    with db(3) present show ?thesis
      by (simp add: get_after_put length_upsert)
  qed
  with db show ?thesis
    by (auto simp: get_after_put get_after_put_ttl)
qed

text \<open>
  A put over an existing document replaces its analysis and its time of writing.
\<close>

theorem cache_roundtrip_upsert_witness:
  "cache_analysis None 5 (Some [stale_doc]) example_track_id (JStr ''v1'')
     = (Inr True, Some [stale_doc\<lparr>doc_analysis := JStr ''v1'', cached_at := 5\<rparr>])
   \<and> get_cached_analysis None (Some [stale_doc\<lparr>doc_analysis := JStr ''v1'', cached_at := 5\<rparr>])
        example_track_id = Inr (JStr ''v1'')"
proof -
  have h: "cache_analysis None 5 (Some [stale_doc]) example_track_id (JStr ''v1'')
     = (Inr True, Some [stale_doc\<lparr>doc_analysis := JStr ''v1'', cached_at := 5\<rparr>])"
    by (simp add: cache_analysis_def get_db_def update_one_def stale_doc_def)
  from cache_roundtrip_upsert [OF h] h show ?thesis
    by simp
qed

lemma validate_example_track_id:
  "validate_track_id_param example_track_id = Inr example_track_id"
  by (simp add: validate_track_id_param_def example_track_id_def strip_def isspace_def
      re_match_track_id_def base62_def)

lemma validate_example_response:
  "AnalysisResponse_validate no_coercion (model_dump example_response) = Inr example_response"
  by (simp add: model_dump_def example_response_def required_def AnalysisResponse_init_def
      in_float_range_small)

lemma get_stale_doc:
  "get_cached_analysis None (Some [stale_doc]) example_track_id = Inr (model_dump example_response)"
  by (simp add: get_cached_analysis_def get_db_def find_one_def stale_doc_def)

text \<open>
  C2, evaluated where the code departs from it: a document written at time 0 is older
  than the index's expiry one second after it, the expiry pass has not run yet, and the
  read returns the document's analysis; the request is answered from it, with no
  upstream call.
\<close>

theorem expired_entry_served:
  "expired (utcnow example_env) stale_doc
   \<and> get_cached_analysis (read_fault example_env) (Some [stale_doc]) example_track_id
       = Inr (model_dump example_response)
   \<and> get_analysis example_env (Some [stale_doc]) example_token example_track_id
       = (Inr example_response, [], Some [stale_doc])"
proof -
  have "expired (utcnow example_env) stale_doc"
    by (simp add: expired_def example_env_def stale_doc_def)
  moreover have "truthy (model_dump example_response)"
    by (simp add: model_dump_def)
  ultimately show ?thesis
    using get_stale_doc validate_example_response
    by (simp add: get_analysis_def validate_example_track_id example_env_def)
qed


section \<open>Properties of the Analysis Orchestrator\<close>

lemma get_cached_fault: "get_cached_analysis (Some x) (Some docs) tid = Inr JNull"
  by (simp add: get_cached_analysis_def get_db_def find_one_def)

lemma get_cached_empty: "get_cached_analysis None (Some []) tid = Inr JNull"
  by (simp add: get_cached_analysis_def get_db_def find_one_def)

lemma cache_analysis_fault: "cache_analysis (Some x) now (Some docs) tid v = (Inr False, Some docs)"
  by (simp add: cache_analysis_def get_db_def update_one_def)

text \<open>What a request that misses the cache returns, apart from the collection.\<close>

lemma get_analysis_miss:
  assumes "validate_track_id_param track_id0 = Inr tid"
      and "get_cached_analysis (read_fault e) (Some docs) tid = Inr cached" and "\<not> truthy cached"
  shows "fst (get_analysis e (Some docs) token track_id0) =
     (case get_audio_analysis e token tid of Inl x \<Rightarrow> Inl x | Inr analysis \<Rightarrow>
      (case get_audio_features e token tid of Inl x \<Rightarrow> Inl x | Inr features \<Rightarrow>
      if \<not> truthy analysis then Inl (NotFoundError ''Track analysis'')
      else process_analysis (coerce e) tid analysis features))"
proof -
  have c: "\<And>p. (case cache_analysis (write_fault e) (utcnow e) (Some docs) tid (model_dump p) of
            (Inl x, db') \<Rightarrow> (Inl x, [(token, audio_analysis_endpoint tid), (token, audio_features_endpoint tid)], db')
          | (Inr ok, db') \<Rightarrow> (Inr p, [(token, audio_analysis_endpoint tid), (token, audio_features_endpoint tid)], db'))
        = (Inr p, [(token, audio_analysis_endpoint tid), (token, audio_features_endpoint tid)],
           snd (cache_analysis (write_fault e) (utcnow e) (Some docs) tid (model_dump p)))"
    by (cases "write_fault e") (simp_all add: cache_analysis_def get_db_def update_one_def)
  show ?thesis
    unfolding get_analysis_def using assms
    by (simp add: c Let_def split: sum.splits)
qed

lemma get_cached_total: "\<exists>cached. get_cached_analysis f (Some docs) tid = Inr cached"
proof (cases f)
  case None
  then show ?thesis
    by (cases "find (\<lambda>d. doc_track_id d = tid) docs")
      (simp_all add: get_cached_analysis_def get_db_def find_one_def)
next
  case (Some x)
  then show ?thesis by (simp add: get_cached_fault)
qed

lemma get_cached_Some:
  "get_cached_analysis f db tid = Inr cached \<Longrightarrow> \<exists>docs. db = Some docs"
  by (cases db) (simp_all add: get_cached_analysis_def get_db_def)

text \<open>
  C7.  With the database initialised, whatever exception the store raises in the read,
  the read answers \<^verbatim>\<open>None\<close>; whatever exception it raises in the write, the write
  answers \<^verbatim>\<open>False\<close> and the collection is as before; a request whose cache read fails
  gets the response it would get on an empty cache, and a request whose cache write fails
  gets the response it would get had the write succeeded.
\<close>

theorem cache_failures_absorbed:
  "get_cached_analysis (Some x) (Some docs) tid = Inr JNull
   \<and> cache_analysis (Some x) now (Some docs) tid v = (Inr False, Some docs)
   \<and> fst (get_analysis (e\<lparr>read_fault := Some x\<rparr>) (Some docs) token track_id0)
       = fst (get_analysis (e\<lparr>read_fault := None\<rparr>) (Some []) token track_id0)
   \<and> fst (get_analysis (e\<lparr>write_fault := Some x\<rparr>) (Some docs) token track_id0)
       = fst (get_analysis (e\<lparr>write_fault := None\<rparr>) (Some docs) token track_id0)"
proof -
  have r: "fst (get_analysis (e\<lparr>read_fault := Some x\<rparr>) (Some docs) token track_id0)
       = fst (get_analysis (e\<lparr>read_fault := None\<rparr>) (Some []) token track_id0)"
  proof (cases "validate_track_id_param track_id0")
    case (Inl a)
    then show ?thesis by (simp add: get_analysis_def)
  next
    case (Inr tid)
    have "fst (get_analysis (e\<lparr>read_fault := Some x\<rparr>) (Some docs) token track_id0)
        = (case get_audio_analysis e token tid of Inl x \<Rightarrow> Inl x | Inr analysis \<Rightarrow>
           (case get_audio_features e token tid of Inl x \<Rightarrow> Inl x | Inr features \<Rightarrow>
           if \<not> truthy analysis then Inl (NotFoundError ''Track analysis'')
           else process_analysis (coerce e) tid analysis features))"
      using get_analysis_miss [OF Inr, of "e\<lparr>read_fault := Some x\<rparr>" docs JNull token]
      by (simp add: get_cached_fault get_audio_analysis_def get_audio_features_def
          cong: sum.case_cong if_cong)
    moreover have "fst (get_analysis (e\<lparr>read_fault := None\<rparr>) (Some []) token track_id0)
        = (case get_audio_analysis e token tid of Inl x \<Rightarrow> Inl x | Inr analysis \<Rightarrow>
           (case get_audio_features e token tid of Inl x \<Rightarrow> Inl x | Inr features \<Rightarrow>
           if \<not> truthy analysis then Inl (NotFoundError ''Track analysis'')
           else process_analysis (coerce e) tid analysis features))"
      using get_analysis_miss [OF Inr, of "e\<lparr>read_fault := None\<rparr>" "[]" JNull token]
      by (simp add: get_cached_empty get_audio_analysis_def get_audio_features_def
          cong: sum.case_cong if_cong)
    ultimately show ?thesis by simp
  qed
  have w: "fst (get_analysis (e\<lparr>write_fault := Some x\<rparr>) (Some docs) token track_id0)
       = fst (get_analysis (e\<lparr>write_fault := None\<rparr>) (Some docs) token track_id0)"
  proof (cases "validate_track_id_param track_id0")
    case (Inl a)
    then show ?thesis by (simp add: get_analysis_def)
  next
    case (Inr tid)
    obtain cached where c: "get_cached_analysis (read_fault e) (Some docs) tid = Inr cached"
      using get_cached_total by blast
    show ?thesis
    proof (cases "truthy cached")
      case True
      with Inr c show ?thesis by (simp add: get_analysis_def)
    next
      case False
      from get_analysis_miss [OF Inr, of "e\<lparr>write_fault := Some x\<rparr>" docs cached token]
        get_analysis_miss [OF Inr, of "e\<lparr>write_fault := None\<rparr>" docs cached token] c False
      show ?thesis
        by (simp add: get_audio_analysis_def get_audio_features_def cong: sum.case_cong if_cong)
    qed
  qed
  from r w show ?thesis
    by (simp add: get_cached_fault cache_analysis_fault)
qed

text \<open>
  A server-selection timeout in the read and in the write.
\<close>

theorem cache_failures_absorbed_witness:
  "get_cached_analysis (Some (StoreError ''ServerSelectionTimeoutError'')) (Some [stale_doc])
      example_track_id = Inr JNull
   \<and> cache_analysis (Some (StoreError ''ServerSelectionTimeoutError'')) 7 (Some [stale_doc])
      example_track_id (JStr ''v'') = (Inr False, Some [stale_doc])"
  using cache_failures_absorbed [of "StoreError ''ServerSelectionTimeoutError''" "[stale_doc]"
      example_track_id 7 "JStr ''v''" example_env example_token example_track_id]
  by simp


lemma get_cached_uninitialised:
  "get_cached_analysis f None tid = Inl (RuntimeError ''Database not initialized. Call connect_db() first.'')"
  by (simp add: get_cached_analysis_def get_db_def)

lemma features_down_analysis:
  "get_audio_analysis example_env example_token example_track_id = Inr example_analysis"
  by (simp add: get_audio_analysis_def example_env_def features_down_def)

lemma features_down_features:
  "get_audio_features example_env example_token example_track_id = Inl SpotifyAPIError_default"
  by (simp add: get_audio_features_def example_env_def features_down_def
      audio_features_endpoint_def audio_analysis_endpoint_def)

text \<open>
  C3, as the specification states it, at an input where it fails: the cache misses, the
  analysis call returns the scenario's payload and the features call is answered 503; the
  request fails with the features call's \<open>SpotifyAPIError\<close> (status 502).
\<close>

theorem features_failure_counterexample:
  "get_audio_analysis example_env example_token example_track_id = Inr example_analysis
   \<and> get_analysis example_env (Some []) example_token example_track_id
       = (Inl (SpotifyAPIError ''Spotify service temporarily unavailable''),
          [(example_token, audio_analysis_endpoint example_track_id),
           (example_token, audio_features_endpoint example_track_id)],
          Some [])
   \<and> status_code (SpotifyAPIError ''Spotify service temporarily unavailable'') = 502"
proof -
  have c: "get_cached_analysis (read_fault example_env) (Some []) example_track_id = Inr JNull"
    by (simp add: example_env_def get_cached_empty)
  show ?thesis
    using features_down_analysis features_down_features
    by (simp add: get_analysis_def validate_example_track_id c SpotifyAPIError_default_def)
qed

text \<open>
  C3, amended to what the code does.  On a cache miss: an exception of the analysis call
  or of the features call is the request's failure, and its status is 401, 404, 500 or
  502; when both calls return and the analysis payload is absent or empty, the request
  fails with \<open>NotFoundError\<close> (status 404); when both payloads are well-formed objects
  and the analysis is not empty, the response is the specification's transform, in which
  an energy the features lack is 0.5 and a tempo they lack is the track summary's, else
  120.
\<close>

theorem features_failure_aborts:
  assumes "validate_track_id_param track_id0 = Inr tid"
      and "get_cached_analysis (read_fault e) db tid = Inr cached" and "\<not> truthy cached"
  shows "(\<forall>x. get_audio_analysis e token tid = Inl x \<longrightarrow>
            fst (get_analysis e db token track_id0) = Inl x \<and>
            status_code x \<in> {401, 404, 500, 502})
       \<and> (\<forall>analysis x. get_audio_analysis e token tid = Inr analysis \<and>
            get_audio_features e token tid = Inl x \<longrightarrow>
            fst (get_analysis e db token track_id0) = Inl x \<and>
            status_code x \<in> {401, 404, 500, 502})
       \<and> (\<forall>analysis features. get_audio_analysis e token tid = Inr analysis \<and>
            get_audio_features e token tid = Inr features \<and> \<not> truthy analysis \<longrightarrow>
            fst (get_analysis e db token track_id0) = Inl (NotFoundError ''Track analysis''))
       \<and> status_code (NotFoundError ''Track analysis'') = 404
       \<and> (\<forall>analysis features. get_audio_analysis e token tid = Inr analysis \<and>
            get_audio_features e token tid = Inr features \<and> truthy analysis \<and>
            wf_analysis analysis \<and> wf_features features \<longrightarrow>
            fst (get_analysis e db token track_id0) = Inr (spec_transform tid analysis features))
       \<and> (\<forall>a f. map_of f ''energy'' = None \<longrightarrow>
            energy (spec_transform tid (JObj a) (JObj f)) = 0.5)
       \<and> (\<forall>a f t. map_of f ''tempo'' = None \<and> raw_track a = Some t \<longrightarrow>
            tempo (spec_transform tid (JObj a) (JObj f)) = num_or t ''tempo'' 120)"
proof -
  from get_cached_Some [OF assms(2)] obtain docs where db: "db = Some docs"
    by blast
  from get_analysis_miss [OF assms(1) assms(2) [unfolded db] assms(3), of token] db
  have m: "fst (get_analysis e db token track_id0) =
      (case get_audio_analysis e token tid of Inl x \<Rightarrow> Inl x | Inr analysis \<Rightarrow>
         (case get_audio_features e token tid of Inl x \<Rightarrow> Inl x | Inr features \<Rightarrow>
            if \<not> truthy analysis then Inl (NotFoundError ''Track analysis'')
            else process_analysis (coerce e) tid analysis features))"
    by simp
  have s1: "status_code x \<in> {401, 404, 500, 502}" if "get_audio_analysis e token tid = Inl x" for x
    using that make_request_status unfolding get_audio_analysis_def by blast
  have s2: "status_code x \<in> {401, 404, 500, 502}" if "get_audio_features e token tid = Inl x" for x
    using that make_request_status unfolding get_audio_features_def by blast
  have d: "(\<forall>a f. map_of f ''energy'' = None \<longrightarrow>
            energy (spec_transform tid (JObj a) (JObj f)) = 0.5)
       \<and> (\<forall>a f t. map_of f ''tempo'' = None \<and> raw_track a = Some t \<longrightarrow>
            tempo (spec_transform tid (JObj a) (JObj f)) = num_or t ''tempo'' 120)"
    by (simp add: num_or_def Let_def)
  show ?thesis
    unfolding m using s1 s2 d by (auto simp: process_analysis_wf)
qed

text \<open>
  The failing features call of the counterexample, and an analysis call whose answer is
  not JSON, through the amended statement.
\<close>

theorem features_failure_aborts_witness:
  "validate_track_id_param example_track_id = Inr example_track_id
   \<and> get_cached_analysis (read_fault example_env) (Some []) example_track_id = Inr JNull
   \<and> get_audio_analysis example_env example_token example_track_id = Inr example_analysis
   \<and> get_audio_features example_env example_token example_track_id = Inl SpotifyAPIError_default
   \<and> fst (get_analysis example_env (Some []) example_token example_track_id)
       = Inl SpotifyAPIError_default
   \<and> get_audio_analysis (example_env\<lparr>upstream := not_json\<rparr>) example_token example_track_id
       = Inl JSONDecodeError
   \<and> fst (get_analysis (example_env\<lparr>upstream := not_json\<rparr>) (Some []) example_token
        example_track_id) = Inl JSONDecodeError
   \<and> status_code JSONDecodeError = 500"
proof -
  have c: "get_cached_analysis (read_fault example_env) (Some []) example_track_id = Inr JNull"
    by (simp add: example_env_def get_cached_empty)
  have c': "get_cached_analysis (read_fault (example_env\<lparr>upstream := not_json\<rparr>)) (Some [])
      example_track_id = Inr JNull"
    by (simp add: example_env_def get_cached_empty)
  have t: "\<not> truthy JNull" by simp
  have j: "get_audio_analysis (example_env\<lparr>upstream := not_json\<rparr>) example_token example_track_id
       = Inl JSONDecodeError"
    by (simp add: get_audio_analysis_def not_json_def)
  from features_failure_aborts [OF validate_example_track_id c t, of example_token]
    features_failure_aborts [OF validate_example_track_id c' t, of example_token]
    validate_example_track_id c features_down_analysis features_down_features j
  show ?thesis by simp
qed

lemma replicate_token:
  "50 \<le> n \<Longrightarrow> n \<le> 500 \<Longrightarrow> token_char c \<Longrightarrow>
     get_spotify_token (Some (''Bearer '' @ replicate n c)) = Inr (replicate n c)"
  by (auto simp: get_spotify_token_def validate_spotify_token_format_def re_match_token_def
      list_all_iff)

text \<open>
  C10.  When the track is cached (the read returns a truthy value), two requests for it
  with any two tokens accepted by the token check, against any two upstreams, make no
  upstream call, leave the collection as it is and receive the same response: the cached
  value validated as \<^verbatim>\<open>AnalysisResponse\<close>.
\<close>

theorem cache_hit_ignores_token:
  assumes "validate_track_id_param track_id0 = Inr tid"
      and "get_cached_analysis (read_fault e1) db tid = Inr cached"
      and "get_cached_analysis (read_fault e2) db tid = Inr cached"
      and "truthy cached"
      and "get_spotify_token (Some a1) = Inr t1" and "get_spotify_token (Some a2) = Inr t2"
      and "coerce e1 = coerce e2"
  shows "get_analysis e1 db t1 track_id0 = (AnalysisResponse_validate (coerce e1) cached, [], db)
       \<and> get_analysis e2 db t2 track_id0 = get_analysis e1 db t1 track_id0"
  using assms by (simp add: get_analysis_def)

text \<open>
  Two tokens and two upstreams, one cached document, one response.
\<close>

theorem cache_hit_ignores_token_witness:
  "get_spotify_token (Some (''Bearer '' @ example_token)) = Inr example_token
   \<and> get_spotify_token (Some (''Bearer '' @ other_token)) = Inr other_token
   \<and> get_analysis example_env (Some [stale_doc]) example_token example_track_id
       = (Inr example_response, [], Some [stale_doc])
   \<and> get_analysis (example_env\<lparr>upstream := all_down\<rparr>) (Some [stale_doc]) other_token
        example_track_id = (Inr example_response, [], Some [stale_doc])"
proof -
  have t1: "get_spotify_token (Some (''Bearer '' @ example_token)) = Inr example_token"
    unfolding example_token_def by (rule replicate_token) (simp_all add: token_char_def base62_def)
  have t2: "get_spotify_token (Some (''Bearer '' @ other_token)) = Inr other_token"
    unfolding other_token_def by (rule replicate_token) (simp_all add: token_char_def base62_def)
  have c1: "get_cached_analysis (read_fault example_env) (Some [stale_doc]) example_track_id
      = Inr (model_dump example_response)"
    using get_stale_doc by (simp add: example_env_def)
  have c2: "get_cached_analysis (read_fault (example_env\<lparr>upstream := all_down\<rparr>)) (Some [stale_doc])
      example_track_id = Inr (model_dump example_response)"
    using get_stale_doc by (simp add: example_env_def)
  have tr: "truthy (model_dump example_response)"
    by (simp add: model_dump_def)
  have co: "coerce example_env = coerce (example_env\<lparr>upstream := all_down\<rparr>)"
    by simp
  have v: "AnalysisResponse_validate (coerce example_env) (model_dump example_response)
      = Inr example_response"
    using validate_example_response by (simp add: example_env_def)
  from cache_hit_ignores_token [OF validate_example_track_id c1 c2 tr t1 t2 co] t1 t2 v
  show ?thesis by simp
qed

end
